theory Spec2Isabelle
  imports Complex_Main "HOL-Library.Multiset" "HOL-Library.AList"
begin

section \<open>JavaScript values and strings\<close>

text \<open>
  A JavaScript string is a sequence of code units. The model uses \<^typ>\<open>string\<close>, one
  \<^typ>\<open>char\<close> per code unit, which covers the code units up to U+00FF; every literal of the
  source lies in that range (\<open>\<eacute>\<close> is the single code unit 0xE9).

  A spreadsheet cell is a string, a number or a boolean; a column that is missing from a row
  reads as \<open>undefined\<close>, which is \<open>None\<close> of the row's map. Numbers are modelled at their
  integer values (the data model's fields are integers; in magnitude below \<open>2^53\<close>), where
  \<open>ToString\<close> is the decimal numeral and sums are exact; quotients and products are
  rounded to binary64 as the processor rounds them.
\<close>

datatype jsval = JStr string | JNum int | JBool bool

type_synonym RawRow = "string \<rightharpoonup> jsval"

text \<open>The object a row is turned into: property name to value.\<close>

type_synonym jsobject = "string \<rightharpoonup> jsval"

fun truthy :: "jsval \<Rightarrow> bool" where
  "truthy (JStr s) = (s \<noteq> [])"
| "truthy (JNum n) = (n \<noteq> 0)"
| "truthy (JBool b) = b"

text \<open>\<open>a || b\<close> where \<open>a\<close> is a property read and \<open>b\<close> is already a value.\<close>

definition or_else :: "jsval option \<Rightarrow> jsval \<Rightarrow> jsval" where
  "or_else a b = (case a of None \<Rightarrow> b | Some v \<Rightarrow> if truthy v then v else b)"

subsection \<open>Decimal numerals\<close>

definition digit_char :: "nat \<Rightarrow> char" where
  "digit_char d =
     (if d = 0 then CHR ''0'' else if d = 1 then CHR ''1'' else if d = 2 then CHR ''2''
      else if d = 3 then CHR ''3'' else if d = 4 then CHR ''4'' else if d = 5 then CHR ''5''
      else if d = 6 then CHR ''6'' else if d = 7 then CHR ''7'' else if d = 8 then CHR ''8''
      else CHR ''9'')"

fun show_nat :: "nat \<Rightarrow> string" where
  "show_nat n = (if n < 10 then [digit_char n] else show_nat (n div 10) @ [digit_char (n mod 10)])"

declare show_nat.simps [simp del]

text \<open>\<open>ToString\<close> of an integer-valued number.\<close>

definition show_int :: "int \<Rightarrow> string" where
  "show_int i = (if i < 0 then CHR ''-'' # show_nat (nat (- i)) else show_nat (nat i))"

fun ToString :: "jsval \<Rightarrow> string" where
  "ToString (JStr s) = s"
| "ToString (JNum n) = show_int n"
| "ToString (JBool b) = (if b then ''true'' else ''false'')"

subsection \<open>\<open>parseInt\<close> with no radix argument\<close>

text \<open>
  White space and line terminators that \<open>parseInt\<close> skips: TAB, LF, VT, FF, CR, SP and
  NBSP (the ones below U+0100).
\<close>

definition is_ws :: "char \<Rightarrow> bool" where
  "is_ws c = ((of_char c :: nat) \<in> {9, 10, 11, 12, 13, 32, 160})"

text \<open>The value of a digit in radix 10 or 16, \<open>None\<close> for any other code unit.\<close>

definition digit_val :: "nat \<Rightarrow> char \<Rightarrow> nat option" where
  "digit_val R c =
     (let k = (of_char c :: nat) in
      if 48 \<le> k \<and> k \<le> 57 then Some (k - 48)
      else if R = 16 \<and> 97 \<le> k \<and> k \<le> 102 then Some (k - 87)
      else if R = 16 \<and> 65 \<le> k \<and> k \<le> 70 then Some (k - 55)
      else None)"

text \<open>The longest prefix of digits, read as a number; \<open>None\<close> when the prefix is empty.\<close>

fun read_digits :: "nat \<Rightarrow> nat option \<Rightarrow> string \<Rightarrow> nat option" where
  "read_digits R acc [] = acc"
| "read_digits R acc (c # cs) =
     (case digit_val R c of
        None \<Rightarrow> acc
      | Some d \<Rightarrow> read_digits R (Some ((case acc of None \<Rightarrow> 0 | Some a \<Rightarrow> a) * R + d)) cs)"

definition strip_sign :: "string \<Rightarrow> bool \<times> string" where
  "strip_sign s =
     (case s of
        [] \<Rightarrow> (False, [])
      | c # cs \<Rightarrow> if c = CHR ''-'' then (True, cs) else if c = CHR ''+'' then (False, cs)
                 else (False, s))"

definition strip_hex_prefix :: "string \<Rightarrow> nat \<times> string" where
  "strip_hex_prefix s =
     (case s of
        c # d # cs \<Rightarrow> if c = CHR ''0'' \<and> (d = CHR ''x'' \<or> d = CHR ''X'') then (16, cs)
                     else (10, s)
      | _ \<Rightarrow> (10, s))"

text \<open>
  \<open>parseInt(v)\<close>: the argument is converted to a string, leading white space, a sign and
  a hexadecimal prefix are taken off, and the longest prefix of digits is the result;
  \<open>None\<close> is \<open>NaN\<close>.
\<close>

definition parseInt :: "jsval \<Rightarrow> int option" where
  "parseInt v =
     (let s = dropWhile is_ws (ToString v);
          (neg, s1) = strip_sign s;
          (R, s2) = strip_hex_prefix s1
      in case read_digits R None s2 of
           None \<Rightarrow> None
         | Some n \<Rightarrow> Some (if neg then - int n else int n))"

section \<open>Ingestion: \<open>processExcelFile\<close>\<close>

text \<open>The column names and labels of the source that are not plain ASCII.\<close>

definition key_Annee :: string where
  "key_Annee = ''Ann'' @ [CHR 0xE9] @ ''e''"

definition key_Libertes_civiles :: string where
  "key_Libertes_civiles = ''Libert'' @ [CHR 0xE9] @ ''s civiles''"

definition label_Non_specifiee :: string where
  "label_Non_specifiee = ''Non sp'' @ [CHR 0xE9] @ ''cifi'' @ [CHR 0xE9] @ ''e''"

definition label_Non_specifie :: string where
  "label_Non_specifie = ''Non sp'' @ [CHR 0xE9] @ ''cifi'' @ [CHR 0xE9]"

text \<open>
  The callback of \<open>jsonData.map((row, index) => ...)\<close>. \<open>cy\<close> is what
  \<open>new Date().getFullYear()\<close> returns. The object literal lists the seven computed
  properties first and spreads \<open>...row\<close> last, so a property of the row replaces a
  computed property of the same name: \<open>m ++ row\<close>.
\<close>

definition processRow :: "int \<Rightarrow> RawRow \<Rightarrow> nat \<Rightarrow> jsobject" where
  "processRow cy row index =
     (let country = or_else (row ''Pays'') (or_else (row ''Country'') (or_else (row ''country'')
                      (JStr (''Pays '' @ show_nat index))));
          region = or_else (row ''Region'') (or_else (row ''region'') (JStr label_Non_specifiee));
          year = parseInt (or_else (row key_Annee) (or_else (row ''Year'') (or_else (row ''year'')
                      (JNum cy))));
          status = or_else (row ''Status'') (or_else (row ''status'') (JStr label_Non_specifie));
          politicalRights = parseInt (or_else (row ''Droits politiques'')
                      (or_else (row ''Political Rights'') (or_else (row ''politicalRights'')
                      (JNum 0))));
          civilLiberties = parseInt (or_else (row key_Libertes_civiles)
                      (or_else (row ''Civil Liberties'') (or_else (row ''civilLiberties'')
                      (JNum 0))))
      in [''country'' \<mapsto> country,
          ''region'' \<mapsto> region,
          ''year'' \<mapsto> JNum (case year of None \<Rightarrow> cy | Some y \<Rightarrow> y),
          ''status'' \<mapsto> status,
          ''politicalRights'' \<mapsto> JNum (case politicalRights of None \<Rightarrow> 0 | Some p \<Rightarrow> p),
          ''civilLiberties'' \<mapsto> JNum (case civilLiberties of None \<Rightarrow> 0 | Some c \<Rightarrow> c),
          ''totalScore'' \<mapsto> JNum ((case politicalRights of None \<Rightarrow> 0 | Some p \<Rightarrow> p)
                                  + (case civilLiberties of None \<Rightarrow> 0 | Some c \<Rightarrow> c))]
         ++ row)"

definition normalize :: "int \<Rightarrow> RawRow list \<Rightarrow> jsobject list" where
  "normalize cy rows = map (\<lambda>(index, row). processRow cy row index) (enumerate 0 rows)"

text \<open>The scenario row of the specification.\<close>

definition utopia_row :: RawRow where
  "utopia_row = [''Pays'' \<mapsto> JStr ''Utopia'', key_Annee \<mapsto> JStr ''2020'',
                 ''Droits politiques'' \<mapsto> JStr ''7'', key_Libertes_civiles \<mapsto> JStr ''6'']"

text \<open>A property read that \<open>||\<close> passes over: \<open>undefined\<close> or a falsy value.\<close>

definition blank :: "jsval option \<Rightarrow> bool" where
  "blank v = (case v of None \<Rightarrow> True | Some w \<Rightarrow> \<not> truthy w)"

section \<open>Numbers of the aggregation code\<close>

subsection \<open>Binary64 rounding\<close>

text \<open>
  The integer sums and counts of the aggregation code are exact (they stay below
  \<open>2^53\<close>), but a quotient, its product with 100 and a sum with 0.5 are rounded to the
  nearest binary64 number, ties to the even significand. A binary64 number is kept as
  the rational it denotes. \<open>fl\<close> rounds to 53 significant bits; the exponent range of
  binary64 is not modelled, it is out of reach for operands below \<open>2^53\<close>.
\<close>

fun bit_length :: "nat \<Rightarrow> nat" where
  "bit_length n = (if n = 0 then 0 else Suc (bit_length (n div 2)))"

declare bit_length.simps [simp del]

text \<open>The integer \<open>e\<close> with \<open>2^e \<le> x < 2^(e+1)\<close>, for positive \<open>x\<close>.\<close>

definition binade :: "rat \<Rightarrow> int" where
  "binade x =
     (if 1 \<le> x then int (bit_length (nat \<lfloor>x\<rfloor>)) - 1
      else (let k = int (bit_length (nat \<lfloor>1 / x\<rfloor>)) - 1
            in if x = 2 powi (- k) then - k else - k - 1))"

text \<open>The nearest integer, the even one on a tie.\<close>

definition round_even :: "rat \<Rightarrow> int" where
  "round_even q =
     (let f = \<lfloor>q\<rfloor>; r = q - of_int f
      in if r < 1 / 2 then f else if 1 / 2 < r then f + 1 else if even f then f else f + 1)"

definition round_pos :: "rat \<Rightarrow> rat" where
  "round_pos x = of_int (round_even (x / 2 powi (binade x - 52))) * 2 powi (binade x - 52)"

definition fl :: "rat \<Rightarrow> rat" where
  "fl x = (if x = 0 then 0 else if 0 < x then round_pos x else - round_pos (- x))"

subsection \<open>Arithmetic and \<open>toFixed(1)\<close>\<close>

text \<open>
  The result of a division: a finite binary64 value, or what JavaScript returns for a
  zero divisor. No operation of the source raises on a zero divisor; the quotient is
  \<open>Infinity\<close>, \<open>-Infinity\<close> or \<open>NaN\<close> and travels on.
\<close>

datatype jsnum = Finite rat | PosInfinity | NegInfinity | NotANumber

text \<open>\<open>a / b\<close> for two integer-valued numbers.\<close>

definition js_div :: "rat \<Rightarrow> rat \<Rightarrow> jsnum" where
  "js_div a b =
     (if b \<noteq> 0 then Finite (fl (a / b))
      else if a > 0 then PosInfinity else if a < 0 then NegInfinity else NotANumber)"

text \<open>\<open>x * 100\<close> and \<open>x + c\<close> for a binary64 constant \<open>c\<close>.\<close>

fun js_times100 :: "jsnum \<Rightarrow> jsnum" where
  "js_times100 (Finite x) = Finite (fl (x * 100))"
| "js_times100 v = v"

fun js_plus :: "jsnum \<Rightarrow> rat \<Rightarrow> jsnum" where
  "js_plus (Finite x) c = Finite (fl (x + c))"
| "js_plus v c = v"

text \<open>\<open>a < b\<close>; every comparison with \<open>NaN\<close> is false.\<close>

fun js_less :: "jsnum \<Rightarrow> jsnum \<Rightarrow> bool" where
  "js_less NotANumber b = False"
| "js_less a NotANumber = False"
| "js_less (Finite x) (Finite y) = (x < y)"
| "js_less a PosInfinity = (a \<noteq> PosInfinity)"
| "js_less NegInfinity b = (b \<noteq> NegInfinity)"
| "js_less a b = False"

text \<open>
  The string \<open>toFixed(1)\<close> returns, kept as the number of tenths it denotes:
  \<open>Fixed1 286\<close> is \<open>"28.6"\<close>. \<open>toFixed\<close> takes the tenth nearest to the exact value of
  the binary64 number, and the larger magnitude on a tie. \<open>NonFinite\<close> stands for
  \<open>"NaN"\<close>, \<open>"Infinity"\<close> and \<open>"-Infinity"\<close>. Not kept: the minus sign of a negative
  value that rounds to zero (\<open>"-0.0"\<close>), and the exponent notation of values from
  \<open>10^21\<close> on.
\<close>

datatype fixed1 = Fixed1 int | NonFinite

fun toFixed1 :: "jsnum \<Rightarrow> fixed1" where
  "toFixed1 (Finite x) =
     Fixed1 (if x < 0 then - \<lfloor>- x * 10 + 1 / 2\<rfloor> else \<lfloor>x * 10 + 1 / 2\<rfloor>)"
| "toFixed1 v = NonFinite"

text \<open>The characters of a \<open>toFixed(1)\<close> result.\<close>

fun render_fixed1 :: "fixed1 \<Rightarrow> string" where
  "render_fixed1 (Fixed1 t) =
     (if t < 0 then ''-'' else []) @ show_nat (nat \<bar>t\<bar> div 10) @ ''.''
       @ [digit_char (nat \<bar>t\<bar> mod 10)]"
| "render_fixed1 NonFinite = ''NaN''"

text \<open>The number of tenths a \<open>toFixed(1)\<close> result denotes (0 for a non-finite one).\<close>

fun tenths :: "fixed1 \<Rightarrow> int" where
  "tenths (Fixed1 t) = t"
| "tenths NonFinite = 0"

text \<open>\<open>((c / n) * 100).toFixed(1)\<close> for two counts.\<close>

definition percentage_of :: "nat \<Rightarrow> nat \<Rightarrow> fixed1" where
  "percentage_of c n = toFixed1 (js_times100 (js_div (of_nat c) (of_nat n)))"

text \<open>
  For comparison: the exact share of \<open>c\<close> in \<open>n\<close>, in percent, and the number that a
  \<open>toFixed(1)\<close> result denotes.
\<close>

definition exact_share :: "nat \<Rightarrow> nat \<Rightarrow> rat" where
  "exact_share c n = 100 * (of_nat c / of_nat n)"

definition percent_value :: "fixed1 \<Rightarrow> rat" where
  "percent_value p = of_int (tenths p) / 10"

section \<open>Plain objects used as dictionaries\<close>

text \<open>
  An object created by \<open>{}\<close> and filled by assignment: its own properties in creation
  order. \<open>acc[k] = v\<close> is \<^const>\<open>AList.update\<close>: an existing property keeps its place, a
  new one goes last. \<open>acc[k]\<close> is \<^const>\<open>map_of\<close> for an own property.
\<close>

type_synonym 'v dict = "(string \<times> 'v) list"

text \<open>
  An array index is the canonical numeral of an integer from 0 to \<open>2^32 - 2\<close>.
  \<open>Object.keys\<close>, \<open>Object.values\<close> and \<open>Object.entries\<close> list the array-index
  properties first, in ascending numeric order, then the others in creation order.
\<close>

definition array_index :: "string \<Rightarrow> nat option" where
  "array_index k =
     (case read_digits 10 None k of
        None \<Rightarrow> None
      | Some n \<Rightarrow> if show_nat n = k \<and> int n < 4294967295 then Some n else None)"

definition index_of :: "string \<times> 'v \<Rightarrow> nat" where
  "index_of p = (case array_index (fst p) of None \<Rightarrow> 0 | Some n \<Rightarrow> n)"

definition object_entries :: "'v dict \<Rightarrow> (string \<times> 'v) list" where
  "object_entries d =
     sort_key index_of (filter (\<lambda>p. array_index (fst p) \<noteq> None) d)
       @ filter (\<lambda>p. array_index (fst p) = None) d"

definition object_keys :: "'v dict \<Rightarrow> string list" where
  "object_keys d = map fst (object_entries d)"

definition object_values :: "'v dict \<Rightarrow> 'v list" where
  "object_values d = map snd (object_entries d)"

text \<open>
  The properties every plain object inherits from \<open>Object.prototype\<close>. Reading one of
  these names on an object that has no own property of that name returns the inherited
  function (for \<open>__proto__\<close>: the prototype object), not \<open>undefined\<close>.
\<close>

definition object_prototype_names :: "string list" where
  "object_prototype_names =
     [''constructor'', ''__defineGetter__'', ''__defineSetter__'', ''hasOwnProperty'',
      ''__lookupGetter__'', ''__lookupSetter__'', ''isPrototypeOf'', ''propertyIsEnumerable'',
      ''toString'', ''valueOf'', ''__proto__'', ''toLocaleString'']"

section \<open>\<open>Array.prototype.sort\<close>\<close>

text \<open>
  \<open>sort\<close> is stable: it moves \<open>a\<close> behind \<open>b\<close> only when the comparator returns a
  positive number for \<open>(a, b)\<close>. The model is the stable insertion sort, which gives the
  order every engine gives for a consistent comparator.
\<close>

fun insert_by :: "('a \<Rightarrow> 'a \<Rightarrow> int) \<Rightarrow> 'a \<Rightarrow> 'a list \<Rightarrow> 'a list" where
  "insert_by cmp x [] = [x]"
| "insert_by cmp x (y # ys) = (if cmp x y \<le> 0 then x # y # ys else y # insert_by cmp x ys)"

definition sort_by :: "('a \<Rightarrow> 'a \<Rightarrow> int) \<Rightarrow> 'a list \<Rightarrow> 'a list" where
  "sort_by cmp xs = foldr (insert_by cmp) xs []"

text \<open>\<open>a < b\<close> on strings: lexicographic on the code units.\<close>

fun units_less :: "nat list \<Rightarrow> nat list \<Rightarrow> bool" where
  "units_less [] [] = False"
| "units_less [] (y # ys) = True"
| "units_less (x # xs) [] = False"
| "units_less (x # xs) (y # ys) = (if x = y then units_less xs ys else x < y)"

definition code_units :: "string \<Rightarrow> nat list" where
  "code_units s = map of_char s"

definition str_less :: "string \<Rightarrow> string \<Rightarrow> bool" where
  "str_less a b = units_less (code_units a) (code_units b)"

text \<open>
  \<open>sort()\<close> with no comparator orders the elements by their \<open>ToString\<close>, also when
  they are numbers. An element here is a number or \<open>NaN\<close> (\<open>None\<close>).
\<close>

definition num_string :: "int option \<Rightarrow> string" where
  "num_string v = (case v of None \<Rightarrow> ''NaN'' | Some i \<Rightarrow> show_int i)"

definition default_compare :: "int option \<Rightarrow> int option \<Rightarrow> int" where
  "default_compare a b =
     (if str_less (num_string a) (num_string b) then - 1
      else if str_less (num_string b) (num_string a) then 1 else 0)"

definition sort_default :: "int option list \<Rightarrow> int option list" where
  "sort_default xs = sort_by default_compare xs"

text \<open>
  \<open>Number(k)\<close> on a property name that is the numeral of an integer, as the names of
  the per-year objects are; \<open>None\<close> is \<open>NaN\<close>.
\<close>

definition Number_of_key :: "string \<Rightarrow> int option" where
  "Number_of_key k =
     (let (neg, s) = strip_sign k in
      if s \<noteq> [] \<and> list_all (\<lambda>c. digit_val 10 c \<noteq> None) s
      then map_option (\<lambda>n. if neg then - int n else int n) (read_digits 10 None s)
      else None)"

section \<open>The record type of the aggregation code\<close>

text \<open>
  \<open>interface FreedomData\<close> of \<open>Dashboard.tsx\<close>; the aggregation components read these
  seven properties only. \<open>status\<close> is a string: ingestion passes any label through.
\<close>

record FreedomData =
  country :: string
  region :: string
  year :: int
  status :: string
  politicalRights :: int
  civilLiberties :: int
  totalScore :: int

datatype error = TypeError

section \<open>Headline statistics: \<open>StatsCards\<close>\<close>

text \<open>
  The per-year sums \<open>{ totalScore, count, political, civil }\<close> of \<open>yearlyData\<close>
  (the field names carry the prefix \<open>sum_\<close>).
\<close>

record YearTotals =
  sum_totalScore :: int
  sum_count :: nat
  sum_political :: int
  sum_civil :: int

text \<open>
  One step of \<open>data.reduce\<close> over \<open>yearlyData\<close>. The property name of a number is its
  \<open>ToString\<close>. \<open>!acc[year]\<close> holds exactly when there is no own property yet: a stored
  object is truthy and no numeral is a name inherited from \<open>Object.prototype\<close>.
\<close>

definition yearly_step :: "YearTotals dict \<Rightarrow> FreedomData \<Rightarrow> YearTotals dict" where
  "yearly_step acc item =
     (let k = show_int (year item);
          e = (case map_of acc k of
                 None \<Rightarrow> \<lparr>sum_totalScore = 0, sum_count = 0, sum_political = 0, sum_civil = 0\<rparr>
               | Some e \<Rightarrow> e)
      in AList.update k
           \<lparr>sum_totalScore = sum_totalScore e + totalScore item,
            sum_count = sum_count e + 1,
            sum_political = sum_political e + politicalRights item,
            sum_civil = sum_civil e + civilLiberties item\<rparr> acc)"

definition yearlyData :: "FreedomData list \<Rightarrow> YearTotals dict" where
  "yearlyData data = foldl yearly_step [] data"

text \<open>\<open>Object.keys(yearlyData).map(Number).sort()\<close>\<close>

definition sorted_years :: "FreedomData list \<Rightarrow> int option list" where
  "sorted_years data = sort_default (map Number_of_key (object_keys (yearlyData data)))"

text \<open>
  The trend of lines 40 to 52. Reading \<open>.totalScore\<close> of a year that \<open>yearlyData\<close> does
  not hold would raise a \<open>TypeError\<close>.
\<close>

definition trend_of :: "FreedomData list \<Rightarrow> error + string" where
  "trend_of data =
     (let years = sorted_years data in
      if length years > 1 then
        (case (map_of (yearlyData data) (num_string (years ! 0)),
               map_of (yearlyData data) (num_string (years ! (length years - 1)))) of
           (Some firstYear, Some lastYear) \<Rightarrow>
             (let firstAvg = js_div (of_int (sum_totalScore firstYear)) (of_nat (sum_count firstYear));
                  lastAvg = js_div (of_int (sum_totalScore lastYear)) (of_nat (sum_count lastYear))
              in Inr (if js_less (js_plus firstAvg (1 / 2)) lastAvg then ''improving''
                      else if js_less lastAvg (js_plus firstAvg (- (1 / 2))) then ''declining''
                      else ''stable''))
         | _ \<Rightarrow> Inl TypeError)
      else Inr ''stable'')"

record Stats =
  totalCountries :: nat
  freeCountries :: nat
  partiallyFreeCountries :: nat
  notFreeCountries :: nat
  avgPoliticalRights :: fixed1
  avgCivilLiberties :: fixed1
  avgTotalScore :: fixed1
  uniqueRegions :: nat
  uniqueYears :: nat
  trend :: string
  freePercentage :: fixed1
  partiallyFreePercentage :: fixed1
  notFreePercentage :: fixed1

text \<open>
  The \<open>useMemo\<close> body of \<open>StatsCards\<close>; \<open>Inr None\<close> is the \<open>null\<close> of line 13.
  \<open>new Set(xs).size\<close> is the number of distinct elements.
\<close>

definition stats :: "FreedomData list \<Rightarrow> error + Stats option" where
  "stats data =
     (if length data = 0 then Inr None
      else
        let total = length data;
            free = length (filter (\<lambda>d. status d = ''Libre'') data);
            partiallyFree = length (filter (\<lambda>d. status d = ''Partiellement libre'') data);
            notFree = length (filter (\<lambda>d. status d = ''Pas libre'') data);
            avgPolitical = js_div (of_int (foldl (\<lambda>sum d. sum + politicalRights d) 0 data)) (of_nat total);
            avgCivil = js_div (of_int (foldl (\<lambda>sum d. sum + civilLiberties d) 0 data)) (of_nat total);
            avgTotal = js_div (of_int (foldl (\<lambda>sum d. sum + totalScore d) 0 data)) (of_nat total)
        in case trend_of data of
             Inl e \<Rightarrow> Inl e
           | Inr t \<Rightarrow> Inr (Some
               \<lparr>totalCountries = total,
                freeCountries = free,
                partiallyFreeCountries = partiallyFree,
                notFreeCountries = notFree,
                avgPoliticalRights = toFixed1 avgPolitical,
                avgCivilLiberties = toFixed1 avgCivil,
                avgTotalScore = toFixed1 avgTotal,
                uniqueRegions = length (remdups (map region data)),
                uniqueYears = length (remdups (map year data)),
                trend = t,
                freePercentage = toFixed1 (js_times100 (js_div (of_nat free) (of_nat total))),
                partiallyFreePercentage =
                  toFixed1 (js_times100 (js_div (of_nat partiallyFree) (of_nat total))),
                notFreePercentage = toFixed1 (js_times100 (js_div (of_nat notFree) (of_nat total)))\<rparr>))"

text \<open>
  The trend classification in the words of the specification: the average
  \<open>totalScore\<close> of the numerically latest year against that of the earliest one,
  \<open>stable\<close> with fewer than two distinct years.
\<close>

definition year_average :: "FreedomData list \<Rightarrow> int \<Rightarrow> rat" where
  "year_average data y =
     of_int (sum_list (map totalScore (filter (\<lambda>d. year d = y) data)))
       / of_nat (length (filter (\<lambda>d. year d = y) data))"

definition spec_trend :: "FreedomData list \<Rightarrow> string" where
  "spec_trend data =
     (let ys = sort (remdups (map year data)) in
      if length ys < 2 then ''stable''
      else if year_average data (last ys) > year_average data (hd ys) + 1 / 2 then ''improving''
      else if year_average data (last ys) < year_average data (hd ys) - 1 / 2 then ''declining''
      else ''stable'')"

text \<open>The three canonical status labels.\<close>

definition canonical :: "string \<Rightarrow> bool" where
  "canonical s = (s = ''Libre'' \<or> s = ''Partiellement libre'' \<or> s = ''Pas libre'')"

section \<open>Charts: \<open>DataVisualization\<close>\<close>

text \<open>
  A value of the \<open>distribution\<close> object: a count, or the string that \<open>+ 1\<close> makes of
  an inherited function or object (\<open>Garbled\<close>; dividing it gives \<open>NaN\<close>).
\<close>

datatype tally = Count nat | Garbled

text \<open>
  \<open>acc[k] = (acc[k] || 0) + 1\<close>. An own count is at least 1, hence truthy. Without an
  own property the read falls through to \<open>Object.prototype\<close>; the assignment to
  \<open>__proto__\<close> calls the inherited setter, which ignores a string and creates nothing.
\<close>

definition count_step :: "tally dict \<Rightarrow> string \<Rightarrow> tally dict" where
  "count_step acc k =
     (case map_of acc k of
        Some (Count n) \<Rightarrow> AList.update k (Count (n + 1)) acc
      | Some Garbled \<Rightarrow> AList.update k Garbled acc
      | None \<Rightarrow>
          if k \<in> set object_prototype_names
          then (if k = ''__proto__'' then acc else AList.update k Garbled acc)
          else AList.update k (Count 1) acc)"

text \<open>The \<open>distribution\<close> object after the \<open>reduce\<close> over a list of keys.\<close>

definition status_counts :: "string list \<Rightarrow> tally dict" where
  "status_counts xs = foldl count_step [] xs"

fun tally_div :: "tally \<Rightarrow> nat \<Rightarrow> jsnum" where
  "tally_div (Count c) n = js_div (of_nat c) (of_nat n)"
| "tally_div Garbled n = NotANumber"

record StatusEntry =
  name :: string
  "value" :: tally
  percentage :: fixed1

definition statusDistribution :: "FreedomData list \<Rightarrow> StatusEntry list" where
  "statusDistribution data =
     (let distribution = foldl (\<lambda>acc item. count_step acc (status item)) [] data
      in map (\<lambda>(name, value).
                \<lparr>name = name, value = value,
                 percentage = toFixed1 (js_times100 (tally_div value (length data)))\<rparr>)
             (object_entries distribution))"

text \<open>
  An entry of the region summary; \<open>shortName\<close> is the source's \<open>name\<close>, the region's
  name cut to 15 characters.
\<close>

record RegionEntry =
  shortName :: string
  fullName :: string
  count :: tally
  avgPolitical :: jsnum
  avgCivil :: jsnum

text \<open>\<open>b.count - a.count\<close>; a \<open>NaN\<close> result counts as 0 for \<open>sort\<close>.\<close>

definition count_desc :: "RegionEntry \<Rightarrow> RegionEntry \<Rightarrow> int" where
  "count_desc a b =
     (case (count b, count a) of
        (Count y, Count x) \<Rightarrow> int y - int x
      | _ \<Rightarrow> 0)"

definition regionDistribution :: "FreedomData list \<Rightarrow> RegionEntry list" where
  "regionDistribution data =
     (let distribution = foldl (\<lambda>acc item. count_step acc (region item)) [] data
      in take 10 (sort_by count_desc
           (map (\<lambda>(name, count).
                   \<lparr>shortName = (if length name > 15 then take 15 name @ ''...'' else name),
                    fullName = name,
                    count = count,
                    avgPolitical =
                      js_div (of_int (foldl (\<lambda>sum d. sum + politicalRights d) 0
                                        (filter (\<lambda>d. region d = name) data)))
                             (of_nat (length (filter (\<lambda>d. region d = name) data))),
                    avgCivil =
                      js_div (of_int (foldl (\<lambda>sum d. sum + civilLiberties d) 0
                                        (filter (\<lambda>d. region d = name) data)))
                             (of_nat (length (filter (\<lambda>d. region d = name) data)))\<rparr>)
                (object_entries distribution))))"

text \<open>
  The accumulator of \<open>yearlyTrends\<close> (field names with the prefix \<open>acc_\<close>): \<open>avgPolitical\<close>
  and \<open>avgCivil\<close> hold the sums until the final \<open>map\<close> replaces them by the one-decimal
  averages. In an entry of the series the first four field names carry the prefix
  \<open>point_\<close>.
\<close>

record YearAcc =
  acc_year :: int
  acc_totalCountries :: nat
  acc_avgPolitical :: int
  acc_avgCivil :: int
  acc_libre :: nat
  acc_partLibre :: nat
  acc_pasLibre :: nat

record YearPoint =
  point_year :: int
  point_totalCountries :: nat
  point_avgPolitical :: fixed1
  point_avgCivil :: fixed1
  libre :: nat
  partLibre :: nat
  pasLibre :: nat

definition year_step :: "YearAcc dict \<Rightarrow> FreedomData \<Rightarrow> YearAcc dict" where
  "year_step acc item =
     (let k = show_int (year item);
          e = (case map_of acc k of
                 None \<Rightarrow> \<lparr>acc_year = year item, acc_totalCountries = 0, acc_avgPolitical = 0,
                          acc_avgCivil = 0, acc_libre = 0, acc_partLibre = 0, acc_pasLibre = 0\<rparr>
               | Some e \<Rightarrow> e);
          e1 = e\<lparr>acc_totalCountries := acc_totalCountries e + 1,
                 acc_avgPolitical := acc_avgPolitical e + politicalRights item,
                 acc_avgCivil := acc_avgCivil e + civilLiberties item\<rparr>
      in AList.update k
           (if status item = ''Libre'' then e1\<lparr>acc_libre := acc_libre e1 + 1\<rparr>
            else if status item = ''Partiellement libre''
                 then e1\<lparr>acc_partLibre := acc_partLibre e1 + 1\<rparr>
            else e1\<lparr>acc_pasLibre := acc_pasLibre e1 + 1\<rparr>) acc)"

definition finish_year :: "YearAcc \<Rightarrow> YearPoint" where
  "finish_year item =
     \<lparr>point_year = acc_year item,
      point_totalCountries = acc_totalCountries item,
      point_avgPolitical =
        toFixed1 (js_div (of_int (acc_avgPolitical item)) (of_nat (acc_totalCountries item))),
      point_avgCivil =
        toFixed1 (js_div (of_int (acc_avgCivil item)) (of_nat (acc_totalCountries item))),
      libre = acc_libre item,
      partLibre = acc_partLibre item,
      pasLibre = acc_pasLibre item\<rparr>"

definition yearlyTrends :: "FreedomData list \<Rightarrow> YearPoint list" where
  "yearlyTrends data =
     (let yearData = foldl year_step [] data
      in sort_by (\<lambda>a b. point_year a - point_year b) (map finish_year (object_values yearData)))"

text \<open>The \<open>yearData\<close> object after the \<open>reduce\<close>.\<close>

definition yearData :: "FreedomData list \<Rightarrow> YearAcc dict" where
  "yearData data = foldl year_step [] data"

text \<open>
  The records of one year, and what the accumulator of that year holds once all of
  them are counted: a record is counted as \<open>libre\<close> or \<open>partLibre\<close> when its status is
  that label, and as \<open>pasLibre\<close> in every other case.
\<close>

definition records_of_year :: "FreedomData list \<Rightarrow> int \<Rightarrow> FreedomData list" where
  "records_of_year data y = filter (\<lambda>d. year d = y) data"

definition year_group :: "FreedomData list \<Rightarrow> int \<Rightarrow> YearAcc" where
  "year_group data y =
     \<lparr>acc_year = y,
      acc_totalCountries = length (records_of_year data y),
      acc_avgPolitical = sum_list (map politicalRights (records_of_year data y)),
      acc_avgCivil = sum_list (map civilLiberties (records_of_year data y)),
      acc_libre = length (filter (\<lambda>d. status d = ''Libre'') (records_of_year data y)),
      acc_partLibre =
        length (filter (\<lambda>d. status d = ''Partiellement libre'') (records_of_year data y)),
      acc_pasLibre =
        length (filter (\<lambda>d. status d \<noteq> ''Libre'' \<and> status d \<noteq> ''Partiellement libre'')
                  (records_of_year data y))\<rparr>"

section \<open>The table: \<open>sortedData\<close> of \<open>DataTable\<close>\<close>

text \<open>
  The rows of the table are the objects ingestion built, so a cell can hold any value.
  \<open>String(v).toLowerCase()\<close> as code units; the letters with a lower case below U+0100
  are A to Z and U+00C0 to U+00DE without U+00D7.
\<close>

definition lower_unit :: "nat \<Rightarrow> nat" where
  "lower_unit k =
     (if (65 \<le> k \<and> k \<le> 90) \<or> (192 \<le> k \<and> k \<le> 222 \<and> k \<noteq> 215) then k + 32 else k)"

definition String_of :: "jsval option \<Rightarrow> string" where
  "String_of v = (case v of None \<Rightarrow> ''undefined'' | Some w \<Rightarrow> ToString w)"

definition lower_string :: "jsval option \<Rightarrow> nat list" where
  "lower_string v = map lower_unit (code_units (String_of v))"

datatype direction = Asc | Desc

text \<open>The comparator of lines 30 to 46.\<close>

definition compare_rows :: "string \<Rightarrow> direction \<Rightarrow> jsobject \<Rightarrow> jsobject \<Rightarrow> int" where
  "compare_rows sortColumn sortDirection a b =
     (case (a sortColumn, b sortColumn) of
        (Some (JNum aValue), Some (JNum bValue)) \<Rightarrow>
          (if sortDirection = Asc then aValue - bValue else bValue - aValue)
      | (aValue, bValue) \<Rightarrow>
          (let aString = lower_string aValue; bString = lower_string bValue in
           if sortDirection = Asc
           then (if units_less aString bString then - 1
                 else if units_less bString aString then 1 else 0)
           else (if units_less bString aString then - 1
                 else if units_less aString bString then 1 else 0)))"

text \<open>
  Arrays live in a store, so that sorting a copy and sorting the argument differ.
  \<open>[...data]\<close> allocates a new array with the same elements and \<open>sort\<close> reorders that
  array in place; \<open>return data\<close> returns the argument's own reference. The selected
  column is \<open>null\<close> (\<open>None\<close>) or a property name; \<open>!sortColumn\<close> is also true of the
  empty name.
\<close>

record store =
  arrays :: "nat \<rightharpoonup> jsobject list"
  next_ref :: nat

definition spread_copy :: "store \<Rightarrow> jsobject list \<Rightarrow> nat \<times> store" where
  "spread_copy st xs =
     (next_ref st, st\<lparr>arrays := (arrays st)(next_ref st \<mapsto> xs), next_ref := Suc (next_ref st)\<rparr>)"

definition sort_in_place :: "(jsobject \<Rightarrow> jsobject \<Rightarrow> int) \<Rightarrow> store \<Rightarrow> nat \<Rightarrow> store option" where
  "sort_in_place cmp st r =
     (case arrays st r of
        None \<Rightarrow> None
      | Some xs \<Rightarrow> Some (st\<lparr>arrays := (arrays st)(r \<mapsto> sort_by cmp xs)\<rparr>))"

definition sortedData :: "store \<Rightarrow> nat \<Rightarrow> string option \<Rightarrow> direction \<Rightarrow> (nat \<times> store) option" where
  "sortedData st data sortColumn sortDirection =
     (case sortColumn of
        None \<Rightarrow> Some (data, st)
      | Some col \<Rightarrow>
          if col = [] then Some (data, st)
          else (case arrays st data of
                  None \<Rightarrow> None
                | Some xs \<Rightarrow>
                    (let (copy, st1) = spread_copy st xs
                     in map_option (\<lambda>st2. (copy, st2))
                          (sort_in_place (compare_rows col sortDirection) st1 copy))))"

text \<open>No sort column is selected: \<open>!sortColumn\<close>.\<close>

definition no_column :: "string option \<Rightarrow> bool" where
  "no_column c = (c = None \<or> c = Some [])"

section \<open>Sample collections\<close>

definition sample :: "int \<Rightarrow> string \<Rightarrow> int \<Rightarrow> int \<Rightarrow> FreedomData" where
  "sample y s p c =
     \<lparr>country = ''A'', region = ''Europe'', year = y, status = s,
      politicalRights = p, civilLiberties = c, totalScore = p + c\<rparr>"

text \<open>Two years whose numerals have different lengths.\<close>

definition two_years :: "FreedomData list" where
  "two_years = [sample 98 ''Libre'' 2 2, sample 2001 ''Libre'' 5 5]"

text \<open>Seven records, each with one of the three canonical labels.\<close>

definition seven_records :: "FreedomData list" where
  "seven_records =
     [sample 2020 ''Libre'' 1 1, sample 2020 ''Libre'' 2 1,
      sample 2020 ''Partiellement libre'' 3 4, sample 2020 ''Partiellement libre'' 4 4,
      sample 2020 ''Pas libre'' 6 6, sample 2020 ''Pas libre'' 7 6, sample 2020 ''Pas libre'' 7 7]"

text \<open>Six records with six different status labels.\<close>

definition six_labels :: "FreedomData list" where
  "six_labels =
     [sample 2020 ''Libre'' 1 1, sample 2020 ''Partiellement libre'' 3 4,
      sample 2020 ''Pas libre'' 6 6, sample 2020 label_Non_specifie 0 0,
      sample 2020 ''Free'' 1 2, sample 2020 ''Not Free'' 7 7]"

text \<open>One record whose status is none of the three canonical labels.\<close>

definition one_unspecified :: "FreedomData list" where
  "one_unspecified = [sample 2020 label_Non_specifie 3 4]"

text \<open>
  The scenario of the specification: ten records, four \<open>Libre\<close>, three
  \<open>Partiellement libre\<close>, three \<open>Pas libre\<close>.
\<close>

definition ten_records :: "FreedomData list" where
  "ten_records =
     [sample 2019 ''Libre'' 1 1, sample 2019 ''Libre'' 1 2, sample 2019 ''Libre'' 2 1,
      sample 2019 ''Libre'' 2 2, sample 2019 ''Partiellement libre'' 3 4,
      sample 2021 ''Partiellement libre'' 4 4, sample 2021 ''Partiellement libre'' 4 3,
      sample 2021 ''Pas libre'' 6 6, sample 2021 ''Pas libre'' 7 6, sample 2021 ''Pas libre'' 7 7]"

text \<open>669 records, one of them with a status that is none of the three labels.\<close>

definition many_records :: "FreedomData list" where
  "many_records =
     replicate 191 (sample 2020 ''Libre'' 1 1)
       @ replicate 191 (sample 2020 ''Partiellement libre'' 3 3)
       @ replicate 286 (sample 2020 ''Pas libre'' 6 6)
       @ [sample 2020 label_Non_specifie 0 0]"


text \<open>Three spreadsheet rows; the last one names no country.\<close>

definition three_rows :: "RawRow list" where
  "three_rows = [[''Pays'' \<mapsto> JStr ''Utopia''], [''Country'' \<mapsto> JStr ''Ruritania''],
                 [''Pays'' \<mapsto> JStr [], ''Region'' \<mapsto> JStr ''Europe'']]"

text \<open>A store with one array of two table rows.\<close>

definition row_2021 :: jsobject where
  "row_2021 = [''country'' \<mapsto> JStr ''Utopia'', ''year'' \<mapsto> JNum 2021]"

definition row_2019 :: jsobject where
  "row_2019 = [''country'' \<mapsto> JStr ''Ruritania'', ''year'' \<mapsto> JNum 2019]"

definition table_store :: store where
  "table_store = \<lparr>arrays = [0 \<mapsto> [row_2021, row_2019]], next_ref = 1\<rparr>"

section \<open>Evaluation rules\<close>

lemma floor_rat_numeral [simp]:
  "\<lfloor>(numeral a / numeral b :: rat)\<rfloor> = numeral a div numeral b"
  using floor_divide_of_int_eq [of "numeral a" "numeral b", where ?'a = rat] by simp

lemmas numeral_defs = show_int_def show_nat.simps digit_char_def digit_val_def strip_sign_def

lemmas ingest_defs = normalize_def processRow_def or_else_def parseInt_def
  strip_hex_prefix_def is_ws_def key_Annee_def key_Libertes_civiles_def
  label_Non_specifie_def label_Non_specifiee_def enumerate_eq_zip Let_def

lemmas object_defs = object_keys_def object_values_def object_entries_def array_index_def
  index_of_def

lemmas sort_defs = sort_default_def sort_by_def default_compare_def num_string_def
  str_less_def code_units_def Number_of_key_def

lemmas stats_defs = stats_def trend_of_def sorted_years_def yearlyData_def yearly_step_def
  Let_def

lemmas chart_defs = statusDistribution_def regionDistribution_def yearlyTrends_def
  count_step_def year_step_def finish_year_def object_prototype_names_def Let_def

section \<open>Binary64 rounding\<close>

lemma bit_length_bounds:
  "0 < n \<Longrightarrow> 2 ^ (bit_length n - 1) \<le> n \<and> n < 2 ^ bit_length n"
proof (induction n rule: bit_length.induct)
  case (1 n)
  show ?case
  proof (cases "n div 2 = 0")
    case True
    with "1.prems" have "n = 1" by linarith
    then show ?thesis by (simp add: bit_length.simps)
  next
    case False
    with "1.IH" have IH: "2 ^ (bit_length (n div 2) - 1) \<le> n div 2" "n div 2 < 2 ^ bit_length (n div 2)"
      using "1.prems" by simp_all
    from False have pos: "0 < bit_length (n div 2)" by (subst bit_length.simps) simp
    have eq: "bit_length n = Suc (bit_length (n div 2))"
      using "1.prems" by (subst bit_length.simps) simp
    have "2 ^ (bit_length n - 1) = 2 * 2 ^ (bit_length (n div 2) - 1)"
      using pos eq by (cases "bit_length (n div 2)") simp_all
    also have "\<dots> \<le> 2 * (n div 2)" using IH(1) by simp
    also have "\<dots> \<le> n" by simp
    finally have lower: "2 ^ (bit_length n - 1) \<le> n" .
    have "n < 2 * (n div 2) + 2" by linarith
    also have "\<dots> \<le> 2 * 2 ^ bit_length (n div 2)" using IH(2) by simp
    finally have "n < 2 ^ bit_length n" by (simp add: eq)
    with lower show ?thesis by simp
  qed
qed

lemma bit_length_pos: "0 < n \<Longrightarrow> 0 < bit_length n"
  by (subst bit_length.simps) simp

lemma floor_binade:
  fixes y :: rat
  assumes "1 \<le> y"
  shows "2 ^ (bit_length (nat \<lfloor>y\<rfloor>) - 1) \<le> y \<and> y < 2 ^ bit_length (nat \<lfloor>y\<rfloor>)"
proof -
  let ?n = "nat \<lfloor>y\<rfloor>"
  from assms have f: "1 \<le> \<lfloor>y\<rfloor>" by simp
  then have n: "0 < ?n" by simp
  note b = bit_length_bounds [OF n]
  have "rat_of_nat (2 ^ (bit_length ?n - 1)) \<le> rat_of_nat ?n"
    using b by (simp only: of_nat_le_iff)
  also have "rat_of_nat ?n = of_int \<lfloor>y\<rfloor>" using f by simp
  also have "\<dots> \<le> y" by simp
  finally have lower: "2 ^ (bit_length ?n - 1) \<le> y" by simp
  from b have "?n < 2 ^ bit_length ?n" by (rule conjunct2)
  then have "?n + 1 \<le> 2 ^ bit_length ?n" by linarith
  then have "rat_of_nat (?n + 1) \<le> rat_of_nat (2 ^ bit_length ?n)"
    by (simp only: of_nat_le_iff)
  moreover have "y < rat_of_nat (?n + 1)"
  proof -
    have "y < of_int \<lfloor>y\<rfloor> + 1" by linarith
    also have "of_int \<lfloor>y\<rfloor> + 1 = rat_of_nat (?n + 1)" using f by simp
    finally show ?thesis .
  qed
  ultimately have "y < 2 ^ bit_length ?n" by simp
  with lower show ?thesis by simp
qed

text \<open>\<open>binade x\<close> is the exponent of the power of two at or below \<open>x\<close>.\<close>

lemma binade_bounds:
  assumes "0 < x"
  shows "2 powi (binade x) \<le> x \<and> x < 2 powi (binade x + 1)"
proof (cases "1 \<le> x")
  case True
  let ?b = "bit_length (nat \<lfloor>x\<rfloor>)"
  from True have "0 < nat \<lfloor>x\<rfloor>" by simp
  then have pos: "0 < ?b" by (rule bit_length_pos)
  have e: "binade x = int (?b - 1)" using True pos by (simp add: binade_def)
  have e1: "binade x + 1 = int ?b" using e pos by simp
  from floor_binade [OF True] show ?thesis
    unfolding e1 unfolding e by (simp only: power_int_of_nat)
next
  case False
  with assms have x: "0 < x" "x < 1" by simp_all
  let ?y = "1 / x"
  let ?b = "bit_length (nat \<lfloor>?y\<rfloor>)"
  from x have y: "1 \<le> ?y" by simp
  then have "0 < nat \<lfloor>?y\<rfloor>" by simp
  then have pos: "0 < ?b" by (rule bit_length_pos)
  define k where "k = ?b - 1"
  have kb: "?b = Suc k" using pos by (simp add: k_def)
  from floor_binade [OF y] have yb: "2 ^ k \<le> ?y" "?y < 2 ^ Suc k"
    by (simp_all add: k_def [symmetric] kb)
  have p: "(0::rat) < 2 ^ k" by simp
  from yb(1) x have up: "x \<le> 1 / 2 ^ k"
    by (simp add: field_simps)
  from yb(2) x have lo: "1 / 2 ^ Suc k < x"
    by (simp add: field_simps)
  have pk: "(2::rat) powi (- int k) = 1 / 2 ^ k"
    by (simp add: power_int_minus field_simps)
  have pk1: "(2::rat) powi (- int k - 1) = 1 / 2 ^ Suc k"
    by (simp add: power_int_diff power_int_minus field_simps)
  have "(2::rat) powi (- int k + 1) = 2 powi (- int k) * 2 powi 1"
    by (rule power_int_add) simp
  then have pk2: "(2::rat) powi (- int k + 1) = 2 / 2 ^ k"
    by (simp add: pk)
  have bin: "binade x = (if x = 1 / 2 ^ k then - int k else - int k - 1)"
    using False pos by (simp add: binade_def Let_def kb pk)
  show ?thesis
  proof (cases "x = 1 / 2 ^ k")
    case True
    then have e: "binade x = - int k" using bin by simp
    have a: "2 powi binade x = x" unfolding e pk using True by simp
    have "(1::rat) / 2 ^ k < 2 / 2 ^ k" by (simp add: divide_strict_right_mono)
    then have b: "x < 2 powi (binade x + 1)" unfolding e pk2 using True by simp
    from a b show ?thesis by simp
  next
    case F: False
    then have e: "binade x = - int k - 1" using bin by simp
    from F up have "x < 1 / 2 ^ k" by simp
    with lo show ?thesis unfolding e by (simp add: pk1 pk del: power_Suc)
  qed
qed

lemma round_even_near: "\<bar>rat_of_int (round_even q) - q\<bar> \<le> 1 / 2"
proof -
  have "rat_of_int \<lfloor>q\<rfloor> \<le> q" "q < rat_of_int \<lfloor>q\<rfloor> + 1" by linarith+
  then show ?thesis
    by (auto simp: round_even_def Let_def abs_le_iff)
qed

lemma round_even_nonneg: "0 \<le> q \<Longrightarrow> 0 \<le> round_even q"
  by (auto simp: round_even_def Let_def)

text \<open>The relative error of one rounding is at most \<open>2^-53\<close>.\<close>

lemma round_pos_near:
  assumes "0 < x"
  shows "\<bar>round_pos x - x\<bar> \<le> x / 2 ^ 53"
proof -
  define e where "e = binade x"
  define s :: rat where "s = 2 powi (e - 52)"
  define q where "q = x / s"
  have s: "0 < s" by (simp add: s_def)
  from binade_bounds [OF assms] have lo: "2 powi e \<le> x" by (simp add: e_def)
  have pe: "(2::rat) powi e = 2 ^ 52 * s"
    by (simp add: s_def power_int_diff)
  have rp: "round_pos x = rat_of_int (round_even q) * s"
    by (simp add: round_pos_def e_def s_def q_def)
  have xq: "x = q * s" using s by (simp add: q_def)
  have "round_pos x - x = rat_of_int (round_even q) * s - q * s"
    using rp xq by metis
  then have "round_pos x - x = (rat_of_int (round_even q) - q) * s"
    by (simp add: left_diff_distrib)
  then have "\<bar>round_pos x - x\<bar> = \<bar>rat_of_int (round_even q) - q\<bar> * s"
    using s by (simp add: abs_mult)
  also have "\<dots> \<le> 1 / 2 * s"
    using round_even_near [of q] s by (intro mult_right_mono) simp_all
  also have "\<dots> = (2 ^ 52 * s) / 2 ^ 53" by simp
  also have "\<dots> \<le> x / 2 ^ 53"
    using lo unfolding pe by (intro divide_right_mono) simp_all
  finally show ?thesis .
qed

lemma round_pos_nonneg: "0 < x \<Longrightarrow> 0 \<le> round_pos x"
proof -
  assume "0 < x"
  then have "0 \<le> x / 2 powi (binade x - 52)" by simp
  then have "0 \<le> round_even (x / 2 powi (binade x - 52))" by (rule round_even_nonneg)
  then show ?thesis by (simp add: round_pos_def)
qed

lemma fl_near: "\<bar>fl x - x\<bar> \<le> \<bar>x\<bar> / 2 ^ 53"
proof -
  consider "x = 0" | "0 < x" | "x < 0" by linarith
  then show ?thesis
  proof cases
    case 1
    then show ?thesis by (simp add: fl_def)
  next
    case 2
    with round_pos_near [OF 2] show ?thesis by (simp add: fl_def)
  next
    case 3
    then have p: "0 < - x" by simp
    from round_pos_near [OF p] have "\<bar>round_pos (- x) + x\<bar> \<le> - x / 2 ^ 53" by simp
    moreover have "\<bar>- round_pos (- x) - x\<bar> = \<bar>round_pos (- x) + x\<bar>"
      using abs_minus_cancel [of "round_pos (- x) + x"] by simp
    ultimately show ?thesis using 3 by (simp add: fl_def)
  qed
qed

lemma fl_nonneg: "0 \<le> x \<Longrightarrow> 0 \<le> fl x"
  by (auto simp: fl_def round_pos_nonneg)

lemma fl_near_nonneg: "0 \<le> x \<Longrightarrow> \<bar>fl x - x\<bar> \<le> x / 2 ^ 53"
  using fl_near [of x] by (simp only: abs_of_nonneg)

lemma pow53: "(2::rat) ^ 53 = 9007199254740992"
  by simp

lemma pow12: "(10::rat) ^ 12 = 1000000000000"
  by simp

text \<open>\<open>toFixed(1)\<close> is within half a tenth of the binary64 number it is applied to.\<close>

lemma toFixed1_near:
  "\<exists>t. toFixed1 (Finite x) = Fixed1 t \<and> \<bar>rat_of_int t - x * 10\<bar> \<le> 1 / 2"
proof (cases "x < 0")
  case True
  have "\<bar>rat_of_int (- \<lfloor>- x * 10 + 1 / 2\<rfloor>) - x * 10\<bar> \<le> 1 / 2" by linarith
  with True show ?thesis by simp
next
  case False
  have "\<bar>rat_of_int \<lfloor>x * 10 + 1 / 2\<rfloor> - x * 10\<bar> \<le> 1 / 2" by linarith
  with False show ?thesis by simp
qed

lemma one_rounding:
  fixes t f r :: rat
  assumes "\<bar>t - f * 10\<bar> \<le> 1 / 2" "\<bar>f - r\<bar> \<le> \<bar>r\<bar> / 2 ^ 53"
  shows "\<bar>t - 10 * r\<bar> \<le> 1 / 2 + \<bar>r\<bar> / 10 ^ 12"
proof -
  define u where "u = \<bar>r\<bar>"
  have u: "0 \<le> u" by (simp add: u_def)
  from assms(2) have "f - r \<le> u / 9007199254740992" "r - f \<le> u / 9007199254740992"
    unfolding u_def [symmetric] pow53 by linarith+
  moreover from assms(1) have "t - f * 10 \<le> 1 / 2" "f * 10 - t \<le> 1 / 2" by linarith+
  ultimately have "t - 10 * r \<le> 1 / 2 + u / 1000000000000"
    "10 * r - t \<le> 1 / 2 + u / 1000000000000"
    using u by linarith+
  then show ?thesis unfolding u_def pow12 by linarith
qed

lemma two_roundings:
  fixes t a b r :: rat
  assumes "0 \<le> r" "\<bar>a - r\<bar> \<le> r / 2 ^ 53"
    "\<bar>b - a * 100\<bar> \<le> a * 100 / 2 ^ 53" "\<bar>t - b * 10\<bar> \<le> 1 / 2"
  shows "\<bar>t - 1000 * r\<bar> \<le> 1 / 2 + r / 10 ^ 12"
proof -
  note r = assms(1)
  note ar = assms(2) [unfolded pow53]
  note ba = assms(3) [unfolded pow53]
  from r ar have a2: "a \<le> 2 * r" by linarith
  from ba a2 have "\<bar>b - a * 100\<bar> \<le> 200 * r / 9007199254740992" by linarith
  with ar have "\<bar>b - 100 * r\<bar> \<le> 300 * r / 9007199254740992" by linarith
  then have "\<bar>b * 10 - 1000 * r\<bar> \<le> 3000 * r / 9007199254740992" by linarith
  moreover have "3000 * r / 9007199254740992 \<le> r / 1000000000000" using r by linarith
  ultimately show ?thesis using assms(4) unfolding pow12 by linarith
qed

text \<open>
  A one-decimal average \<open>(a / b).toFixed(1)\<close> is a finite numeral, within half a tenth
  and the rounding error of the quotient of the exact average.
\<close>

lemma mean_near:
  assumes "b \<noteq> 0"
  shows "\<exists>t. toFixed1 (js_div a b) = Fixed1 t
     \<and> \<bar>rat_of_int t - 10 * (a / b)\<bar> \<le> 1 / 2 + \<bar>a / b\<bar> / 10 ^ 12"
proof -
  obtain t where t: "toFixed1 (Finite (fl (a / b))) = Fixed1 t"
    "\<bar>rat_of_int t - fl (a / b) * 10\<bar> \<le> 1 / 2"
    using toFixed1_near by blast
  have "\<bar>fl (a / b) - a / b\<bar> \<le> \<bar>a / b\<bar> / 2 ^ 53" by (rule fl_near)
  with t(2) have "\<bar>rat_of_int t - 10 * (a / b)\<bar> \<le> 1 / 2 + \<bar>a / b\<bar> / 10 ^ 12"
    by (rule one_rounding)
  with t(1) assms show ?thesis by (simp add: js_div_def)
qed

text \<open>
  A percentage \<open>((c / n) * 100).toFixed(1)\<close> is a finite numeral, within half a tenth and
  the two rounding errors of the exact share.
\<close>

lemma percentage_near:
  assumes "0 < n"
  shows "\<exists>t. percentage_of c n = Fixed1 t
     \<and> \<bar>rat_of_int t - 1000 * (rat_of_nat c / rat_of_nat n)\<bar>
          \<le> 1 / 2 + (rat_of_nat c / rat_of_nat n) / 10 ^ 12"
proof -
  define r where "r = rat_of_nat c / rat_of_nat n"
  define a where "a = fl r"
  define b where "b = fl (a * 100)"
  have r: "0 \<le> r" by (simp add: r_def)
  then have a: "0 \<le> a" unfolding a_def by (rule fl_nonneg)
  then have "0 \<le> a * 100" by simp
  then have b: "0 \<le> b" unfolding b_def by (rule fl_nonneg)
  have ar: "\<bar>a - r\<bar> \<le> r / 2 ^ 53" unfolding a_def using r by (rule fl_near_nonneg)
  have ba: "\<bar>b - a * 100\<bar> \<le> (a * 100) / 2 ^ 53"
    unfolding b_def using \<open>0 \<le> a * 100\<close> by (rule fl_near_nonneg)
  obtain t where t: "toFixed1 (Finite b) = Fixed1 t" "\<bar>rat_of_int t - b * 10\<bar> \<le> 1 / 2"
    using toFixed1_near by blast
  from r ar ba t(2) have "\<bar>rat_of_int t - 1000 * r\<bar> \<le> 1 / 2 + r / 10 ^ 12"
    by (rule two_roundings)
  moreover have "percentage_of c n = toFixed1 (Finite b)"
    using assms by (simp add: percentage_of_def js_div_def b_def a_def r_def)
  ultimately show ?thesis using t(1) by (auto simp: r_def)
qed

text \<open>
  An array has fewer than \<open>2^32\<close> elements. For a count of such an array the rounding
  errors cannot move the percentage to another tenth: it is within 0.05 of the exact
  share.
\<close>

lemma percentage_close:
  assumes "0 < n" and "c \<le> n" and "n < 2 ^ 32"
  shows "\<exists>t. percentage_of c n = Fixed1 t
     \<and> \<bar>percent_value (Fixed1 t) - exact_share c n\<bar> \<le> 1 / 20"
proof -
  define C where "C = rat_of_nat c"
  define N where "N = rat_of_nat n"
  from assms(1) have N: "0 < N" by (simp add: N_def)
  from assms(2) have CN: "C \<le> N" by (simp add: C_def N_def)
  from assms(3) have "rat_of_nat n < rat_of_nat (2 ^ 32)" by (simp only: of_nat_less_iff)
  then have Nb: "N < 4294967296" by (simp add: N_def)
  from percentage_near [OF assms(1), of c] obtain t where
    t: "percentage_of c n = Fixed1 t"
    and near: "\<bar>rat_of_int t - 1000 * (C / N)\<bar> \<le> 1 / 2 + (C / N) / 10 ^ 12"
    unfolding C_def N_def by blast
  define d where "d = rat_of_int t - 1000 * (C / N)"
  define r where "r = C / N"
  from N CN have r1: "r \<le> 1" by (simp add: r_def)
  from near have "\<bar>d\<bar> \<le> 1 / 2 + r / 1000000000000"
    unfolding d_def r_def pow12 .
  with r1 have b: "\<bar>d\<bar> \<le> 1 / 2 + 1 / 1000000000000" by linarith
  have "\<bar>d\<bar> * (2 * N) \<le> (1 / 2 + 1 / 1000000000000) * (2 * N)"
    using b N by (intro mult_right_mono) simp_all
  also have "\<dots> = N + N / 500000000000" by (simp add: algebra_simps)
  also have "\<dots> < N + 1" using Nb by simp
  finally have lt: "\<bar>d\<bar> * (2 * N) < N + 1" .
  have dN: "d * (2 * N) = rat_of_int (2 * (t * int n - 1000 * int c))"
    using N by (simp add: d_def C_def N_def field_simps)
  have "\<bar>d\<bar> * (2 * N) = \<bar>d * (2 * N)\<bar>" using N by (simp add: abs_mult)
  also have "\<dots> = rat_of_int \<bar>2 * (t * int n - 1000 * int c)\<bar>" unfolding dN by simp
  finally have eq: "\<bar>d\<bar> * (2 * N) = rat_of_int \<bar>2 * (t * int n - 1000 * int c)\<bar>" .
  have "N + 1 = rat_of_int (int n + 1)" by (simp add: N_def)
  with lt eq have "rat_of_int \<bar>2 * (t * int n - 1000 * int c)\<bar> < rat_of_int (int n + 1)" by simp
  then have "\<bar>2 * (t * int n - 1000 * int c)\<bar> < int n + 1" by (simp only: of_int_less_iff)
  then have "\<bar>2 * (t * int n - 1000 * int c)\<bar> \<le> int n" by simp
  then have "rat_of_int \<bar>2 * (t * int n - 1000 * int c)\<bar> \<le> rat_of_int (int n)"
    by (simp only: of_int_le_iff)
  with eq have "\<bar>d\<bar> * (2 * N) \<le> N" by (simp add: N_def)
  with N have half: "\<bar>d\<bar> \<le> 1 / 2" by (simp add: field_simps)
  have "percent_value (Fixed1 t) - exact_share c n = d / 10"
    by (simp add: percent_value_def exact_share_def d_def C_def N_def field_simps)
  then have "\<bar>percent_value (Fixed1 t) - exact_share c n\<bar> = \<bar>d\<bar> / 10"
    by (simp only: abs_divide abs_numeral)
  with half have "\<bar>percent_value (Fixed1 t) - exact_share c n\<bar> \<le> 1 / 20" by linarith
  with t show ?thesis by blast
qed

text \<open>
  Values. \<open>(23 / 80) * 100\<close> is \<open>28.749999999999996\<close>, so its percentage is \<open>"28.7"\<close>
  and not the \<open>"28.8"\<close> of the exact share 28.75; \<open>3 / 20\<close> and \<open>7 / 20\<close> lie below 0.15
  and 0.35 and give \<open>"0.1"\<close> and \<open>"0.3"\<close>; and \<open>5 / 6 > 1 / 3 + 0.5\<close> holds, although the
  two sides are equal as rationals.
\<close>

lemma binary64_examples:
  "percentage_of 23 80 = Fixed1 287"
  "toFixed1 (js_div 3 20) = Fixed1 1"
  "toFixed1 (js_div 7 20) = Fixed1 3"
  "js_less (js_plus (js_div 1 3) (1 / 2)) (js_div 5 6)"
  by code_simp+

text \<open>The values that the sample collections need.\<close>

lemma fl_values:
  "fl 3 = 3" "fl 4 = 4" "fl 5 = 5" "fl 10 = 10"
  "fl (7 / 2) = 7 / 2" "fl (9 / 2) = 9 / 2" "fl (11 / 2) = 11 / 2"
  "fl (19 / 2) = 19 / 2" "fl (21 / 2) = 21 / 2"
  by code_simp+

lemma average_values:
  "toFixed1 (js_div 30 7) = Fixed1 43"
  "toFixed1 (js_div 29 7) = Fixed1 41"
  "toFixed1 (js_div 59 7) = Fixed1 84"
  "toFixed1 (js_div 7 2) = Fixed1 35"
  "toFixed1 (js_div 10 2) = Fixed1 50"
  "toFixed1 (js_div 3 1) = Fixed1 30"
  "toFixed1 (js_div 4 1) = Fixed1 40"
  by code_simp+

lemma percentage_values:
  "toFixed1 (js_times100 (js_div 2 7)) = Fixed1 286"
  "toFixed1 (js_times100 (js_div 3 7)) = Fixed1 429"
  "toFixed1 (js_times100 (js_div 1 6)) = Fixed1 167"
  "percentage_of 4 10 = Fixed1 400"
  "percentage_of 3 10 = Fixed1 300"
  "percentage_of 191 669 = Fixed1 286"
  "percentage_of 286 669 = Fixed1 428"
  by code_simp+

section \<open>Numerals are read back\<close>

lemma digit_cases:
  "d < 10 \<Longrightarrow> d = 0 \<or> d = 1 \<or> d = 2 \<or> d = 3 \<or> d = 4 \<or> d = 5 \<or> d = 6 \<or> d = 7
     \<or> d = 8 \<or> d = (9::nat)"
  by arith

lemma digit_val_digit_char: "d < 10 \<Longrightarrow> digit_val 10 (digit_char d) = Some d"
  by (drule digit_cases) (auto simp: digit_val_def digit_char_def)

lemma read_digits_show_nat:
  "read_digits 10 None (show_nat n @ rest) = read_digits 10 (Some n) rest"
proof (induction n arbitrary: rest rule: show_nat.induct)
  case (1 n)
  show ?case
  proof (cases "n < 10")
    case True
    then show ?thesis
      by (subst show_nat.simps) (simp add: digit_val_digit_char)
  next
    case False
    have "read_digits 10 None (show_nat n @ rest)
          = read_digits 10 None (show_nat (n div 10) @ digit_char (n mod 10) # rest)"
      using False by (subst show_nat.simps) simp
    also have "\<dots> = read_digits 10 (Some (n div 10)) (digit_char (n mod 10) # rest)"
      by (rule "1.IH" [OF False])
    also have "\<dots> = read_digits 10 (Some n) rest"
      by (simp add: digit_val_digit_char)
    finally show ?thesis .
  qed
qed

lemma show_nat_digits: "list_all (\<lambda>c. digit_val 10 c \<noteq> None) (show_nat n)"
proof (induction n rule: show_nat.induct)
  case (1 n)
  show ?case
  proof (cases "n < 10")
    case True
    then show ?thesis by (subst show_nat.simps) (simp add: digit_val_digit_char)
  next
    case False
    with "1.IH" show ?thesis by (subst show_nat.simps) (simp add: digit_val_digit_char)
  qed
qed

lemma show_nat_not_Nil: "show_nat n \<noteq> []"
  by (subst show_nat.simps) simp

lemma strip_sign_show_nat: "strip_sign (show_nat n) = (False, show_nat n)"
proof (cases "show_nat n")
  case Nil
  then show ?thesis by (simp add: show_nat_not_Nil)
next
  case (Cons c cs)
  with show_nat_digits [of n] have "digit_val 10 c \<noteq> None" by simp
  then have "c \<noteq> CHR ''-''" "c \<noteq> CHR ''+''" by (auto simp: digit_val_def)
  with Cons show ?thesis by (simp add: strip_sign_def)
qed

text \<open>\<open>Number(String(y)) = y\<close> for every integer \<open>y\<close>.\<close>

lemma Number_of_key_show_int: "Number_of_key (show_int y) = Some y"
proof (cases "y < 0")
  case True
  have "read_digits 10 None (show_nat (nat (- y))) = Some (nat (- y))"
    using read_digits_show_nat [of "nat (- y)" "[]"] by simp
  with True show_nat_digits [of "nat (- y)"] show ?thesis
    by (simp add: Number_of_key_def show_int_def strip_sign_def show_nat_not_Nil)
next
  case False
  have "read_digits 10 None (show_nat (nat y)) = Some (nat y)"
    using read_digits_show_nat [of "nat y" "[]"] by simp
  with False show_nat_digits [of "nat y"] show ?thesis
    by (simp add: Number_of_key_def show_int_def strip_sign_show_nat show_nat_not_Nil)
qed

lemma inj_show_int: "show_int x = show_int y \<Longrightarrow> x = y"
  by (metis Number_of_key_show_int option.inject)

section \<open>Enumeration and sorting keep the elements\<close>

lemma mset_object_entries: "mset (object_entries d) = mset d"
proof -
  have "mset (filter (\<lambda>p. array_index (fst p) \<noteq> None) d)
          + mset (filter (\<lambda>p. \<not> array_index (fst p) \<noteq> None) d) = mset d"
    by (simp only: mset_filter multiset_partition [symmetric])
  then show ?thesis by (simp add: object_entries_def)
qed

lemma set_object_entries: "set (object_entries d) = set d"
  by (metis mset_object_entries set_mset_mset)

lemma set_object_keys: "set (object_keys d) = fst ` set d"
  by (simp add: object_keys_def set_object_entries)

lemma distinct_object_keys:
  "distinct (map fst d) \<Longrightarrow> distinct (map fst (object_entries d))"
  by (metis mset_object_entries mset_map mset_eq_imp_distinct_iff)

lemma mset_insert_by: "mset (insert_by cmp x ys) = add_mset x (mset ys)"
  by (induction ys) auto

lemma mset_sort_by: "mset (sort_by cmp xs) = mset xs"
  by (induction xs) (auto simp: sort_by_def mset_insert_by)

lemma set_insert_by: "set (insert_by cmp x ys) = insert x (set ys)"
  by (induction ys) auto

lemma set_sort_by: "set (sort_by cmp xs) = set xs"
  by (induction xs) (auto simp: sort_by_def set_insert_by)



section \<open>Ingestion\<close>

text \<open>One record per row, in the order of the rows; no step of the callback can raise.\<close>

lemma length_normalize: "length (normalize cy rows) = length rows"
  by (simp add: normalize_def)

lemma nth_normalize:
  "i < length rows \<Longrightarrow> normalize cy rows ! i = processRow cy (rows ! i) i"
  by (simp add: normalize_def nth_enumerate_eq)

text \<open>A property of the row wins over the computed property of the same name.\<close>

lemma processRow_row_wins: "row k = Some v \<Longrightarrow> processRow cy row i k = Some v"
  by (simp add: processRow_def Let_def)

lemma processRow_country:
  "processRow cy row i ''country'' =
     (case row ''country'' of
        Some v \<Rightarrow> Some v
      | None \<Rightarrow> Some (or_else (row ''Pays'') (or_else (row ''Country'')
                  (JStr (''Pays '' @ show_nat i)))))"
  by (simp add: processRow_def Let_def map_add_def or_else_def split: option.splits)

text \<open>
  Where the row has no column named \<open>politicalRights\<close>, \<open>civilLiberties\<close> or
  \<open>totalScore\<close>, the three properties are numbers and the third is the sum of the
  other two.
\<close>

lemma processRow_totalScore:
  assumes "row ''politicalRights'' = None" and "row ''civilLiberties'' = None"
    and "row ''totalScore'' = None"
  shows "\<exists>p c. processRow cy row i ''politicalRights'' = Some (JNum p)
             \<and> processRow cy row i ''civilLiberties'' = Some (JNum c)
             \<and> processRow cy row i ''totalScore'' = Some (JNum (p + c))"
  using assms by (simp add: processRow_def Let_def map_add_def)

text \<open>Where the row has no column named \<open>year\<close>, the year is a number.\<close>

lemma processRow_year:
  assumes "row ''year'' = None"
  shows "\<exists>y. processRow cy row i ''year'' = Some (JNum y)"
  using assms by (simp add: processRow_def Let_def map_add_def)

text \<open>
  Claim C9. Normalizing the single row \<open>{Pays: "Utopia", Ann\<eacute>e: "2020",
  "Droits politiques": "7", "Libert\<eacute>s civiles": "6"}\<close> yields exactly one record, with
  country \<open>"Utopia"\<close>, year 2020, politicalRights 7, civilLiberties 6, totalScore 13 and
  the status \<open>"Non sp\<eacute>cifi\<eacute>"\<close>, whatever the current year is.
\<close>

theorem utopia_scenario:
  "map (\<lambda>r. (r ''country'', r ''year'', r ''politicalRights'', r ''civilLiberties'',
              r ''totalScore'', r ''status''))
     (normalize cy [utopia_row])
   = [(Some (JStr ''Utopia''), Some (JNum 2020), Some (JNum 7), Some (JNum 6),
       Some (JNum 13), Some (JStr label_Non_specifie))]"
  by (simp add: ingest_defs numeral_defs utopia_row_def)

text \<open>
  Claim C1 says that \<open>totalScore\<close> is always \<open>politicalRights + civilLiberties\<close> and is
  never taken from a source column. The code computes the sum, and then \<open>...row\<close>
  overwrites it: for the row \<open>{"Droits politiques": 3, "Libert\<eacute>s civiles": 4,
  totalScore: 99}\<close> the record has politicalRights 3, civilLiberties 4 and totalScore 99.
\<close>

theorem totalScore_overwritten_by_row:
  "map (\<lambda>r. (r ''politicalRights'', r ''civilLiberties'', r ''totalScore''))
     (normalize cy [[''Droits politiques'' \<mapsto> JNum 3, key_Libertes_civiles \<mapsto> JNum 4,
                     ''totalScore'' \<mapsto> JNum 99]])
   = [(Some (JNum 3), Some (JNum 4), Some (JNum 99))]"
  by (simp add: ingest_defs numeral_defs)

text \<open>
  Claim C6 says that a failed integer parse of year is replaced by the current year.
  For the row \<open>{year: "abc"}\<close> the parse fails and the code computes the fallback, and
  then \<open>...row\<close> puts the string \<open>"abc"\<close> back: the record's year is not a number.
\<close>

theorem failed_year_parse_kept_from_row:
  "parseInt (JStr ''abc'') = None \<and>
   map (\<lambda>r. r ''year'') (normalize cy [[''year'' \<mapsto> JStr ''abc'']]) = [Some (JStr ''abc'')]"
  by (simp add: ingest_defs numeral_defs)

text \<open>
  Claim C2, as amended. When the row at index \<open>i\<close> has no column \<open>country\<close> and its
  columns \<open>Pays\<close> and \<open>Country\<close> are absent or empty, the record's country is the
  placeholder \<open>"Pays {i}"\<close>: the word is \<open>Pays\<close>, not \<open>Country\<close>.
\<close>

theorem placeholder_country:
  assumes "i < length rows" and "blank ((rows ! i) ''Pays'')" and "blank ((rows ! i) ''Country'')"
    and "(rows ! i) ''country'' = None"
  shows "(normalize cy rows ! i) ''country'' = Some (JStr (''Pays '' @ show_nat i))"
  using assms
  by (simp add: nth_normalize processRow_country or_else_def blank_def split: option.splits)

text \<open>The third of three rows has an empty \<open>Pays\<close> column and is named \<open>"Pays 2"\<close>.\<close>

theorem placeholder_country_witness:
  "2 < length three_rows \<and> blank ((three_rows ! 2) ''Pays'')
   \<and> blank ((three_rows ! 2) ''Country'') \<and> (three_rows ! 2) ''country'' = None
   \<and> (normalize 2026 three_rows ! 2) ''country'' = Some (JStr ''Pays 2'')"
proof -
  have h: "2 < length three_rows" "blank ((three_rows ! 2) ''Pays'')"
    "blank ((three_rows ! 2) ''Country'')" "(three_rows ! 2) ''country'' = None"
    by (simp_all add: three_rows_def blank_def)
  from placeholder_country [OF h, of 2026] h show ?thesis
    by (simp add: numeral_defs)
qed

text \<open>
  Claim C2 as stated fails on that row: none of the three country columns is present
  and non-empty, and the country is not \<open>"Country 2"\<close>.
\<close>

theorem placeholder_is_not_Country:
  "blank ((three_rows ! 2) ''Pays'') \<and> blank ((three_rows ! 2) ''Country'')
   \<and> blank ((three_rows ! 2) ''country'')
   \<and> (normalize 2026 three_rows ! 2) ''country'' = Some (JStr ''Pays 2'')
   \<and> (normalize 2026 three_rows ! 2) ''country'' \<noteq> Some (JStr (''Country '' @ show_nat 2))"
  by (simp add: three_rows_def blank_def ingest_defs numeral_defs)

section \<open>The empty collection\<close>

text \<open>
  Claim C7. For the empty collection the headline statistics are \<open>null\<close> and the status
  distribution, the region summary and the yearly series are empty lists: nothing is
  raised and no quotient is computed at all.
\<close>

theorem empty_collection:
  "stats [] = Inr None \<and> statusDistribution [] = [] \<and> regionDistribution [] = []
   \<and> yearlyTrends [] = []"
  by (simp add: stats_def statusDistribution_def regionDistribution_def yearlyTrends_def
        object_defs sort_by_def)

section \<open>Trend classification\<close>

lemma keys_yearly_step:
  "fst ` set (yearly_step acc d) = insert (show_int (year d)) (fst ` set acc)"
  by (simp add: yearly_step_def Let_def dom_update)

lemma keys_foldl_yearly:
  "fst ` set (foldl yearly_step acc data) = fst ` set acc \<union> show_int ` year ` set data"
  by (induction data arbitrary: acc) (auto simp: keys_yearly_step)

lemma keys_yearlyData: "fst ` set (yearlyData data) = show_int ` year ` set data"
  by (simp add: yearlyData_def keys_foldl_yearly)

lemma distinct_foldl_yearly:
  "distinct (map fst acc) \<Longrightarrow> distinct (map fst (foldl yearly_step acc data))"
  by (induction data arbitrary: acc) (auto simp: yearly_step_def Let_def distinct_update)

lemma distinct_yearlyData: "distinct (map fst (yearlyData data))"
  by (simp add: yearlyData_def distinct_foldl_yearly)

lemma set_sorted_years: "set (sorted_years data) = Some ` year ` set data"
  by (auto simp: sorted_years_def sort_default_def set_sort_by set_object_keys keys_yearlyData
        Number_of_key_show_int image_image)

text \<open>\<open>years\<close> has one element per distinct year.\<close>

lemma length_sorted_years: "length (sorted_years data) = length (remdups (map year data))"
proof -
  have "length (sorted_years data) = size (mset (object_entries (yearlyData data)))"
    by (simp add: sorted_years_def sort_default_def object_keys_def
          size_mset [symmetric] mset_sort_by del: size_mset)
  also have "\<dots> = length (map fst (yearlyData data))"
    by (simp add: mset_object_entries)
  also have "\<dots> = card (fst ` set (yearlyData data))"
    using distinct_yearlyData [of data] by (metis distinct_card set_map)
  also have "\<dots> = card (year ` set data)"
    unfolding keys_yearlyData
    by (rule card_image) (auto simp: inj_on_def dest: inj_show_int)
  also have "\<dots> = length (remdups (map year data))"
    by (simp add: length_remdups_card_conv)
  finally show ?thesis .
qed

text \<open>Every year of \<open>years\<close> is a property of \<open>yearlyData\<close>: no \<open>TypeError\<close>.\<close>

lemma lookup_sorted_year:
  assumes "v \<in> set (sorted_years data)"
  shows "\<exists>e. map_of (yearlyData data) (num_string v) = Some e"
proof -
  from assms obtain d where d: "d \<in> set data" "v = Some (year d)"
    by (auto simp: set_sorted_years)
  then have "num_string v \<in> fst ` set (yearlyData data)"
    by (auto simp: keys_yearlyData num_string_def)
  then show ?thesis
    by (metis map_of_eq_None_iff not_None_eq)
qed

lemma trend_of_total: "\<exists>t. trend_of data = Inr t"
proof (cases "length (sorted_years data) > 1")
  case False
  then show ?thesis by (simp add: trend_of_def)
next
  case True
  then have "sorted_years data ! 0 \<in> set (sorted_years data)"
    "sorted_years data ! (length (sorted_years data) - 1) \<in> set (sorted_years data)"
    by (auto intro!: nth_mem)
  then obtain e1 e2 where
    "map_of (yearlyData data) (num_string (sorted_years data ! 0)) = Some e1"
    "map_of (yearlyData data)
       (num_string (sorted_years data ! (length (sorted_years data) - 1))) = Some e2"
    using lookup_sorted_year by blast
  with True show ?thesis by (simp add: trend_of_def Let_def)
qed

text \<open>With fewer than two distinct years the trend is \<open>stable\<close>.\<close>

lemma trend_stable_few_years:
  "length (remdups (map year data)) < 2 \<Longrightarrow> trend_of data = Inr ''stable''"
  by (simp add: trend_of_def length_sorted_years)

text \<open>
  Claim C3 compares the latest year with the earliest one. \<open>sort()\<close> orders the years
  as strings, so for the years 98 and 2001 the code takes 2001 as the first year and 98
  as the last one: the average rises from 4 to 10, the specification's classification
  is \<open>improving\<close>, and the code answers \<open>declining\<close>.
\<close>

theorem trend_uses_string_order:
  "sorted_years two_years = [Some 2001, Some 98] \<and>
   map_sum id (map_option trend) (stats two_years) = Inr (Some ''declining'') \<and>
   spec_trend two_years = ''improving''"
  by (simp add: stats_defs object_defs sort_defs numeral_defs two_years_def sample_def
        spec_trend_def year_average_def js_div_def fl_values)

text \<open>
  The scenarios of the specification, with four-digit years: an average that rises
  from 3 to 5 is \<open>improving\<close>, one that falls from 5 to 3 is \<open>declining\<close>, and equal
  averages are \<open>stable\<close>.
\<close>

lemma trend_scenarios:
  "trend_of [sample 2019 ''Libre'' 1 2, sample 2021 ''Libre'' 2 3] = Inr ''improving''"
  "trend_of [sample 2019 ''Libre'' 2 3, sample 2021 ''Libre'' 1 2] = Inr ''declining''"
  "trend_of [sample 2019 ''Libre'' 2 3, sample 2021 ''Libre'' 3 2] = Inr ''stable''"
  by (simp_all add: stats_defs object_defs sort_defs numeral_defs sample_def js_div_def
        fl_values)

section \<open>Headline percentages\<close>

lemma counts_le_length:
  "length (filter (\<lambda>d. status d = ''Libre'') data)
     + length (filter (\<lambda>d. status d = ''Partiellement libre'') data)
     + length (filter (\<lambda>d. status d = ''Pas libre'') data) \<le> length data"
  by (induction data) auto

lemma counts_eq_length_iff:
  "length (filter (\<lambda>d. status d = ''Libre'') data)
     + length (filter (\<lambda>d. status d = ''Partiellement libre'') data)
     + length (filter (\<lambda>d. status d = ''Pas libre'') data) = length data
   \<longleftrightarrow> list_all (\<lambda>d. canonical (status d)) data"
proof (induction data)
  case Nil
  show ?case by simp
next
  case (Cons d data)
  have le: "length (filter (\<lambda>d. status d = ''Libre'') data)
     + length (filter (\<lambda>d. status d = ''Partiellement libre'') data)
     + length (filter (\<lambda>d. status d = ''Pas libre'') data) \<le> length data"
    by (rule counts_le_length)
  show ?case
  proof (cases "canonical (status d)")
    case True
    with Cons show ?thesis by (auto simp: canonical_def)
  next
    case False
    with le show ?thesis by (auto simp: canonical_def)
  qed
qed

text \<open>
  Three percentages of counts that together are at most the total sum to at most
  100.1: each is rounded on its own.
\<close>

lemma three_percentages_le:
  assumes "0 < n" and "f + p + q \<le> n"
  shows "tenths (percentage_of f n) + tenths (percentage_of p n) + tenths (percentage_of q n)
           \<le> 1001"
proof -
  define r where "r = (\<lambda>c::nat. rat_of_nat c / rat_of_nat n)"
  from percentage_near [OF assms(1), of f] obtain tf where
    tf: "percentage_of f n = Fixed1 tf" "\<bar>rat_of_int tf - 1000 * r f\<bar> \<le> 1 / 2 + r f / 10 ^ 12"
    unfolding r_def by blast
  from percentage_near [OF assms(1), of p] obtain tp where
    tp: "percentage_of p n = Fixed1 tp" "\<bar>rat_of_int tp - 1000 * r p\<bar> \<le> 1 / 2 + r p / 10 ^ 12"
    unfolding r_def by blast
  from percentage_near [OF assms(1), of q] obtain tq where
    tq: "percentage_of q n = Fixed1 tq" "\<bar>rat_of_int tq - 1000 * r q\<bar> \<le> 1 / 2 + r q / 10 ^ 12"
    unfolding r_def by blast
  have "r f + r p + r q = rat_of_nat (f + p + q) / rat_of_nat n"
    by (simp add: r_def add_divide_distrib)
  also have "\<dots> \<le> 1" using assms by (simp add: divide_le_eq_1)
  finally have whole: "r f + r p + r q \<le> 1" .
  from tf(2) have "rat_of_int tf \<le> 1000 * r f + 1 / 2 + r f / 1000000000000"
    unfolding pow12 by linarith
  moreover from tp(2) have "rat_of_int tp \<le> 1000 * r p + 1 / 2 + r p / 1000000000000"
    unfolding pow12 by linarith
  moreover from tq(2) have "rat_of_int tq \<le> 1000 * r q + 1 / 2 + r q / 1000000000000"
    unfolding pow12 by linarith
  ultimately have "rat_of_int tf + rat_of_int tp + rat_of_int tq < 1002"
    using whole by linarith
  then have "rat_of_int (tf + tp + tq) < rat_of_int 1002" by simp
  then have "tf + tp + tq < 1002" by (simp only: of_int_less_iff)
  then show ?thesis by (simp add: tf(1) tp(1) tq(1))
qed

lemma percentage_of_close:
  assumes "0 < n" and "c \<le> n" and "n < 2 ^ 32"
  shows "\<bar>percent_value (percentage_of c n) - exact_share c n\<bar> \<le> 1 / 20"
  using percentage_close [OF assms] by auto

text \<open>The headline fields of a non-empty collection; the component does not raise.\<close>

lemma stats_headline:
  assumes "data \<noteq> []"
  shows "\<exists>s. stats data = Inr (Some s)
     \<and> totalCountries s = length data
     \<and> freeCountries s = length (filter (\<lambda>d. status d = ''Libre'') data)
     \<and> partiallyFreeCountries s = length (filter (\<lambda>d. status d = ''Partiellement libre'') data)
     \<and> notFreeCountries s = length (filter (\<lambda>d. status d = ''Pas libre'') data)
     \<and> freePercentage s = percentage_of (freeCountries s) (totalCountries s)
     \<and> partiallyFreePercentage s = percentage_of (partiallyFreeCountries s) (totalCountries s)
     \<and> notFreePercentage s = percentage_of (notFreeCountries s) (totalCountries s)"
proof -
  obtain t where "trend_of data = Inr t" using trend_of_total by blast
  with assms show ?thesis
    by (simp add: stats_def Let_def percentage_of_def)
qed

text \<open>
  Claim C4, as amended. For every non-empty collection the three headline counts are
  the numbers of records whose status is exactly the canonical label, so together they
  are at most the total, and they reach the total exactly when every status is one of
  the three labels. Each headline percentage is \<open>((count / total) * 100).toFixed(1)\<close>,
  computed from its own count; for an array (fewer than \<open>2^32\<close> records) it is within
  0.05 of the count's exact share of the total. The three percentages sum to at most
  100.1.
\<close>

theorem headline_percentages:
  assumes "data \<noteq> []"
  shows "\<exists>s. stats data = Inr (Some s)
     \<and> totalCountries s = length data
     \<and> freeCountries s = length (filter (\<lambda>d. status d = ''Libre'') data)
     \<and> partiallyFreeCountries s = length (filter (\<lambda>d. status d = ''Partiellement libre'') data)
     \<and> notFreeCountries s = length (filter (\<lambda>d. status d = ''Pas libre'') data)
     \<and> freeCountries s + partiallyFreeCountries s + notFreeCountries s \<le> totalCountries s
     \<and> (freeCountries s + partiallyFreeCountries s + notFreeCountries s = totalCountries s
          \<longleftrightarrow> list_all (\<lambda>d. canonical (status d)) data)
     \<and> freePercentage s = percentage_of (freeCountries s) (totalCountries s)
     \<and> partiallyFreePercentage s = percentage_of (partiallyFreeCountries s) (totalCountries s)
     \<and> notFreePercentage s = percentage_of (notFreeCountries s) (totalCountries s)
     \<and> (length data < 2 ^ 32 \<longrightarrow>
          \<bar>percent_value (freePercentage s)
             - exact_share (freeCountries s) (totalCountries s)\<bar> \<le> 1 / 20
        \<and> \<bar>percent_value (partiallyFreePercentage s)
             - exact_share (partiallyFreeCountries s) (totalCountries s)\<bar> \<le> 1 / 20
        \<and> \<bar>percent_value (notFreePercentage s)
             - exact_share (notFreeCountries s) (totalCountries s)\<bar> \<le> 1 / 20)
     \<and> tenths (freePercentage s) + tenths (partiallyFreePercentage s)
           + tenths (notFreePercentage s) \<le> 1001"
proof -
  from stats_headline [OF assms] obtain s where s: "stats data = Inr (Some s)"
    and fields: "totalCountries s = length data"
      "freeCountries s = length (filter (\<lambda>d. status d = ''Libre'') data)"
      "partiallyFreeCountries s = length (filter (\<lambda>d. status d = ''Partiellement libre'') data)"
      "notFreeCountries s = length (filter (\<lambda>d. status d = ''Pas libre'') data)"
    and perc: "freePercentage s = percentage_of (freeCountries s) (totalCountries s)"
      "partiallyFreePercentage s = percentage_of (partiallyFreeCountries s) (totalCountries s)"
      "notFreePercentage s = percentage_of (notFreeCountries s) (totalCountries s)"
    by blast
  from assms fields have n: "0 < totalCountries s" by simp
  have le: "freeCountries s + partiallyFreeCountries s + notFreeCountries s \<le> totalCountries s"
    unfolding fields by (rule counts_le_length)
  have iff: "freeCountries s + partiallyFreeCountries s + notFreeCountries s = totalCountries s
          \<longleftrightarrow> list_all (\<lambda>d. canonical (status d)) data"
    unfolding fields by (rule counts_eq_length_iff)
  have each: "freeCountries s \<le> totalCountries s" "partiallyFreeCountries s \<le> totalCountries s"
    "notFreeCountries s \<le> totalCountries s"
    using le by simp_all
  have close: "\<bar>percent_value (freePercentage s)
             - exact_share (freeCountries s) (totalCountries s)\<bar> \<le> 1 / 20
        \<and> \<bar>percent_value (partiallyFreePercentage s)
             - exact_share (partiallyFreeCountries s) (totalCountries s)\<bar> \<le> 1 / 20
        \<and> \<bar>percent_value (notFreePercentage s)
             - exact_share (notFreeCountries s) (totalCountries s)\<bar> \<le> 1 / 20"
    if "length data < 2 ^ 32"
  proof -
    from that fields have small: "totalCountries s < 2 ^ 32" by simp
    show ?thesis
      unfolding perc
      using percentage_of_close [OF n each(1) small] percentage_of_close [OF n each(2) small]
        percentage_of_close [OF n each(3) small]
      by (intro conjI)
  qed
  have "tenths (freePercentage s) + tenths (partiallyFreePercentage s)
           + tenths (notFreePercentage s) \<le> 1001"
    unfolding perc using n le by (rule three_percentages_le)
  with s fields perc le iff close show ?thesis by blast
qed

text \<open>The scenario of the specification: four, three and three records of ten.\<close>

theorem headline_percentages_witness:
  "ten_records \<noteq> [] \<and> length ten_records < 2 ^ 32
   \<and> (\<exists>s. stats ten_records = Inr (Some s) \<and> totalCountries s = 10 \<and> freeCountries s = 4
          \<and> partiallyFreeCountries s = 3 \<and> notFreeCountries s = 3
          \<and> freePercentage s = Fixed1 400 \<and> partiallyFreePercentage s = Fixed1 300
          \<and> notFreePercentage s = Fixed1 300)"
proof -
  have ne: "ten_records \<noteq> []" by (simp add: ten_records_def)
  have small: "length ten_records < 2 ^ 32" by (simp add: ten_records_def)
  have counts: "length ten_records = 10"
    "length (filter (\<lambda>d. status d = ''Libre'') ten_records) = 4"
    "length (filter (\<lambda>d. status d = ''Partiellement libre'') ten_records) = 3"
    "length (filter (\<lambda>d. status d = ''Pas libre'') ten_records) = 3"
    by (simp_all add: ten_records_def sample_def)
  from headline_percentages [OF ne] obtain s where s: "stats ten_records = Inr (Some s)"
    and fields: "totalCountries s = length ten_records"
      "freeCountries s = length (filter (\<lambda>d. status d = ''Libre'') ten_records)"
      "partiallyFreeCountries s = length (filter (\<lambda>d. status d = ''Partiellement libre'') ten_records)"
      "notFreeCountries s = length (filter (\<lambda>d. status d = ''Pas libre'') ten_records)"
    and perc: "freePercentage s = percentage_of (freeCountries s) (totalCountries s)"
      "partiallyFreePercentage s = percentage_of (partiallyFreeCountries s) (totalCountries s)"
      "notFreePercentage s = percentage_of (notFreeCountries s) (totalCountries s)"
    by blast
  note nums = fields [unfolded counts]
  from s nums perc have "stats ten_records = Inr (Some s) \<and> totalCountries s = 10
          \<and> freeCountries s = 4
          \<and> partiallyFreeCountries s = 3 \<and> notFreeCountries s = 3
          \<and> freePercentage s = Fixed1 400 \<and> partiallyFreePercentage s = Fixed1 300
          \<and> notFreePercentage s = Fixed1 300"
    by (simp only: percentage_values)
  with ne small show ?thesis by blast
qed

text \<open>They are displayed as \<open>"40.0"\<close>, \<open>"30.0"\<close> and \<open>"30.0"\<close>.\<close>

lemma ten_records_scenario:
  "map render_fixed1 [Fixed1 400, Fixed1 300, Fixed1 300] = [''40.0'', ''30.0'', ''30.0'']"
  by (simp add: numeral_defs)

text \<open>
  Claim C4 as stated fails for seven records with two, two and three records of the
  three labels: every status is canonical and the percentages are \<open>"28.6"\<close>, \<open>"28.6"\<close>
  and \<open>"42.9"\<close>, which sum to 100.1.
\<close>

theorem seven_records_sum_to_100_1:
  "list_all (\<lambda>d. canonical (status d)) seven_records
   \<and> stats seven_records = Inr (Some
       \<lparr>totalCountries = 7, freeCountries = 2, partiallyFreeCountries = 2, notFreeCountries = 3,
        avgPoliticalRights = Fixed1 43, avgCivilLiberties = Fixed1 41, avgTotalScore = Fixed1 84,
        uniqueRegions = 1, uniqueYears = 1, trend = ''stable'',
        freePercentage = Fixed1 286, partiallyFreePercentage = Fixed1 286,
        notFreePercentage = Fixed1 429\<rparr>)
   \<and> tenths (Fixed1 286) + tenths (Fixed1 286) + tenths (Fixed1 429) = 1001"
  by (simp add: stats_defs object_defs sort_defs numeral_defs seven_records_def sample_def
        canonical_def average_values percentage_values)

text \<open>
  The percentages can also sum to 100.0 while a record has another status:
  191, 191 and 286 records of 669 give \<open>"28.6"\<close>, \<open>"28.6"\<close> and \<open>"42.8"\<close>.
\<close>

lemma many_records_sum_to_100:
  "\<not> list_all (\<lambda>d. canonical (status d)) many_records
   \<and> (\<exists>s. stats many_records = Inr (Some s) \<and> freePercentage s = Fixed1 286
          \<and> partiallyFreePercentage s = Fixed1 286 \<and> notFreePercentage s = Fixed1 428)"
proof -
  have ne: "many_records \<noteq> []" by (simp add: many_records_def)
  have other: "\<not> list_all (\<lambda>d. canonical (status d)) many_records"
    by (simp add: many_records_def sample_def canonical_def label_Non_specifie_def)
  have counts: "length many_records = 669"
    "length (filter (\<lambda>d. status d = ''Libre'') many_records) = 191"
    "length (filter (\<lambda>d. status d = ''Partiellement libre'') many_records) = 191"
    "length (filter (\<lambda>d. status d = ''Pas libre'') many_records) = 286"
    by (simp_all add: many_records_def sample_def label_Non_specifie_def)
  from stats_headline [OF ne] obtain s where s: "stats many_records = Inr (Some s)"
    and fields: "totalCountries s = length many_records"
      "freeCountries s = length (filter (\<lambda>d. status d = ''Libre'') many_records)"
      "partiallyFreeCountries s = length (filter (\<lambda>d. status d = ''Partiellement libre'') many_records)"
      "notFreeCountries s = length (filter (\<lambda>d. status d = ''Pas libre'') many_records)"
    and perc: "freePercentage s = percentage_of (freeCountries s) (totalCountries s)"
      "partiallyFreePercentage s = percentage_of (partiallyFreeCountries s) (totalCountries s)"
      "notFreePercentage s = percentage_of (notFreeCountries s) (totalCountries s)"
    by blast
  note nums = fields [unfolded counts]
  from s nums perc have "stats many_records = Inr (Some s) \<and> freePercentage s = Fixed1 286
          \<and> partiallyFreePercentage s = Fixed1 286 \<and> notFreePercentage s = Fixed1 428"
    by (simp only: percentage_values)
  with other show ?thesis by blast
qed

section \<open>Status distribution\<close>

lemma foldl_status:
  "foldl (\<lambda>acc item. count_step acc (status item)) acc data
     = foldl count_step acc (map status data)"
  by (induction data arbitrary: acc) auto

lemma status_counts_snoc: "status_counts (xs @ [x]) = count_step (status_counts xs) x"
  by (simp add: status_counts_def)

text \<open>
  As long as no key is a name inherited from \<open>Object.prototype\<close>, the object holds
  each key once, with the number of its occurrences.
\<close>

lemma status_counts_inv:
  assumes "\<forall>x\<in>set xs. x \<notin> set object_prototype_names"
  shows "distinct (map fst (status_counts xs)) \<and> fst ` set (status_counts xs) = set xs
         \<and> (\<forall>k\<in>set xs. map_of (status_counts xs) k = Some (Count (count_list xs k)))"
  using assms
proof (induction xs rule: rev_induct)
  case Nil
  show ?case by (simp add: status_counts_def)
next
  case (snoc x xs)
  let ?d = "status_counts xs"
  from snoc have IH: "distinct (map fst ?d)" "fst ` set ?d = set xs"
    "\<forall>k\<in>set xs. map_of ?d k = Some (Count (count_list xs k))"
    and plain: "x \<notin> set object_prototype_names"
    by auto
  show ?case
  proof (cases "x \<in> set xs")
    case True
    with IH have look: "map_of ?d x = Some (Count (count_list xs x))" by blast
    then have step: "count_step ?d x = AList.update x (Count (count_list xs x + 1)) ?d"
      by (simp add: count_step_def)
    show ?thesis
      unfolding status_counts_snoc step
      using IH True by (auto simp: distinct_update dom_update update_conv')
  next
    case False
    with IH have "x \<notin> fst ` set ?d" by simp
    then have "map_of ?d x = None" by (simp add: map_of_eq_None_iff)
    with plain have step: "count_step ?d x = AList.update x (Count 1) ?d"
      by (simp add: count_step_def)
    show ?thesis
      unfolding status_counts_snoc step
      using IH False by (auto simp: distinct_update dom_update update_conv')
  qed
qed

lemma count_list_map_filter: "count_list (map f xs) k = length (filter (\<lambda>x. f x = k) xs)"
  by (induction xs) auto

lemma statusDistribution_alt:
  "statusDistribution data =
     map (\<lambda>p. \<lparr>name = fst p, value = snd p,
                percentage = toFixed1 (js_times100 (tally_div (snd p) (length data)))\<rparr>)
         (object_entries (status_counts (map status data)))"
  by (simp add: statusDistribution_def status_counts_def foldl_status case_prod_beta)

lemma status_entries:
  assumes plain: "\<forall>d\<in>set data. status d \<notin> set object_prototype_names"
    and p: "p \<in> set (object_entries (status_counts (map status data)))"
  shows "fst p \<in> status ` set data
     \<and> snd p = Count (length (filter (\<lambda>d. status d = fst p) data))"
proof -
  let ?xs = "map status data"
  from plain have "\<forall>x\<in>set ?xs. x \<notin> set object_prototype_names" by simp
  note inv = status_counts_inv [OF this]
  from p have mem: "p \<in> set (status_counts ?xs)" by (simp add: set_object_entries)
  then have k: "fst p \<in> set ?xs" using inv by (metis image_eqI)
  from mem inv have "map_of (status_counts ?xs) (fst p) = Some (snd p)"
    by (metis map_of_is_SomeI prod.collapse)
  moreover from k inv
  have "map_of (status_counts ?xs) (fst p) = Some (Count (count_list ?xs (fst p)))"
    by blast
  ultimately have "snd p = Count (count_list ?xs (fst p))" by simp
  with k show ?thesis by (simp add: count_list_map_filter)
qed

text \<open>
  The percentages of \<open>k\<close> counts are each rounded on their own, which moves their sum
  from the exact one by at most \<open>k\<close> half tenths, and by the rounding errors of the
  quotients and products.
\<close>

lemma rounded_sum_near:
  assumes "0 < n"
  shows "\<bar>rat_of_int (sum_list (map (\<lambda>c. tenths (percentage_of c n)) cs))
           - 1000 * (rat_of_nat (sum_list cs) / rat_of_nat n)\<bar>
         \<le> rat_of_nat (length cs) / 2 + (rat_of_nat (sum_list cs) / rat_of_nat n) / 10 ^ 12"
proof (induction cs)
  case Nil
  show ?case by simp
next
  case (Cons c cs)
  let ?r = "\<lambda>c. tenths (percentage_of c n)"
  let ?q = "\<lambda>m::nat. rat_of_nat m / rat_of_nat n"
  from percentage_near [OF assms, of c] obtain t where
    "percentage_of c n = Fixed1 t" "\<bar>rat_of_int t - 1000 * ?q c\<bar> \<le> 1 / 2 + ?q c / 10 ^ 12"
    by blast
  then have one: "\<bar>rat_of_int (?r c) - 1000 * ?q c\<bar> \<le> 1 / 2 + ?q c / 10 ^ 12" by simp
  have q: "?q (sum_list (c # cs)) = ?q c + ?q (sum_list cs)"
    by (simp add: add_divide_distrib)
  have split: "rat_of_int (sum_list (map ?r (c # cs))) - 1000 * ?q (sum_list (c # cs))
        = (rat_of_int (?r c) - 1000 * ?q c)
          + (rat_of_int (sum_list (map ?r cs)) - 1000 * ?q (sum_list cs))"
    unfolding q by (simp add: algebra_simps)
  have "\<bar>(rat_of_int (?r c) - 1000 * ?q c)
          + (rat_of_int (sum_list (map ?r cs)) - 1000 * ?q (sum_list cs))\<bar>
        \<le> \<bar>rat_of_int (?r c) - 1000 * ?q c\<bar>
          + \<bar>rat_of_int (sum_list (map ?r cs)) - 1000 * ?q (sum_list cs)\<bar>"
    by (rule abs_triangle_ineq)
  also have "\<dots> \<le> (1 / 2 + ?q c / 10 ^ 12)
                   + (rat_of_nat (length cs) / 2 + ?q (sum_list cs) / 10 ^ 12)"
    using one Cons.IH by (rule add_mono)
  also have "\<dots> = rat_of_nat (length (c # cs)) / 2 + ?q (sum_list (c # cs)) / 10 ^ 12"
    unfolding q by (simp add: add_divide_distrib)
  finally show ?case unfolding split .
qed

text \<open>When the counts add up to the total, the sum is a whole number of tenths.\<close>

lemma rounded_sum_100:
  assumes "0 < n" and "sum_list cs = n"
  shows "2 * \<bar>sum_list (map (\<lambda>c. tenths (percentage_of c n)) cs) - 1000\<bar> \<le> int (length cs)"
proof -
  let ?S = "sum_list (map (\<lambda>c. tenths (percentage_of c n)) cs)"
  have "\<bar>rat_of_int ?S - 1000 * (rat_of_nat (sum_list cs) / rat_of_nat n)\<bar>
          \<le> rat_of_nat (length cs) / 2 + (rat_of_nat (sum_list cs) / rat_of_nat n) / 10 ^ 12"
    using assms(1) by (rule rounded_sum_near)
  with assms have "\<bar>rat_of_int ?S - 1000\<bar> \<le> rat_of_nat (length cs) / 2 + 1 / 1000000000000"
    by simp
  moreover define a where "a = \<bar>rat_of_int ?S - 1000\<bar>"
  ultimately have "2 * a < rat_of_nat (length cs) + 1" by linarith
  then have "2 * \<bar>rat_of_int ?S - 1000\<bar> < rat_of_nat (length cs) + 1" unfolding a_def .
  moreover have "2 * \<bar>rat_of_int ?S - 1000\<bar> = rat_of_int (2 * \<bar>?S - 1000\<bar>)" by simp
  moreover have "rat_of_nat (length cs) + 1 = rat_of_int (int (length cs) + 1)" by simp
  ultimately have "rat_of_int (2 * \<bar>?S - 1000\<bar>) < rat_of_int (int (length cs) + 1)"
    by (simp only:)
  then have "2 * \<bar>?S - 1000\<bar> < int (length cs) + 1" by (simp only: of_int_less_iff)
  then show ?thesis by simp
qed

text \<open>
  Claim C8, as amended. For every non-empty collection in which no status is a name
  inherited from \<open>Object.prototype\<close>, the status distribution contains every distinct
  status exactly once, with the number of its records and the percentage
  \<open>((count / total) * 100).toFixed(1)\<close>, which for an array (fewer than \<open>2^32\<close> records)
  is within 0.05 of the count's exact share of the total; the percentages sum to 100.0
  within 0.05 for each distinct status (not within 0.1 altogether).
\<close>

theorem status_distribution:
  assumes "data \<noteq> []" and "\<forall>d\<in>set data. status d \<notin> set object_prototype_names"
  shows "distinct (map name (statusDistribution data))
     \<and> set (map name (statusDistribution data)) = status ` set data
     \<and> (\<forall>e\<in>set (statusDistribution data).
            value e = Count (length (filter (\<lambda>d. status d = name e) data))
          \<and> percentage e
              = percentage_of (length (filter (\<lambda>d. status d = name e) data)) (length data)
          \<and> (length data < 2 ^ 32 \<longrightarrow>
               \<bar>percent_value (percentage e)
                  - exact_share (length (filter (\<lambda>d. status d = name e) data)) (length data)\<bar>
                 \<le> 1 / 20))
     \<and> 2 * \<bar>sum_list (map (\<lambda>e. tenths (percentage e)) (statusDistribution data)) - 1000\<bar>
           \<le> int (length (statusDistribution data))"
proof -
  let ?xs = "map status data"
  let ?d = "status_counts ?xs"
  let ?E = "object_entries ?d"
  let ?n = "length data"
  let ?c = "\<lambda>k. length (filter (\<lambda>d. status d = k) data)"
  let ?r = "\<lambda>c. tenths (percentage_of c ?n)"
  from assms have n: "0 < ?n" by simp
  from assms have "\<forall>x\<in>set ?xs. x \<notin> set object_prototype_names" by simp
  note inv = status_counts_inv [OF this]
  have names: "map name (statusDistribution data) = map fst ?E"
    by (simp add: statusDistribution_alt comp_def)
  have dist: "distinct (map fst ?E)"
    using inv by (simp add: distinct_object_keys)
  have keys: "set (map fst ?E) = status ` set data"
    using inv by (simp add: set_object_entries)
  have entry: "snd p = Count (?c (fst p))" if "p \<in> set ?E" for p
    using status_entries [OF assms(2) that] by simp
  have fields: "\<forall>e\<in>set (statusDistribution data).
            value e = Count (?c (name e)) \<and> percentage e = percentage_of (?c (name e)) ?n"
    by (auto simp: statusDistribution_alt entry percentage_of_def)
  have close: "\<bar>percent_value (percentage_of (?c k) ?n) - exact_share (?c k) ?n\<bar> \<le> 1 / 20"
    if "?n < 2 ^ 32" for k
    using n length_filter_le that by (rule percentage_of_close)
  have each: "\<forall>e\<in>set (statusDistribution data).
            value e = Count (?c (name e)) \<and> percentage e = percentage_of (?c (name e)) ?n
          \<and> (?n < 2 ^ 32 \<longrightarrow>
               \<bar>percent_value (percentage e) - exact_share (?c (name e)) ?n\<bar> \<le> 1 / 20)"
    using fields close by simp
  have perc: "map (\<lambda>e. tenths (percentage e)) (statusDistribution data)
        = map ?r (map (\<lambda>p. ?c (fst p)) ?E)"
    by (auto simp: statusDistribution_alt entry percentage_of_def)
  have "sum_list (map (\<lambda>p. ?c (fst p)) ?E) = sum_list (map (count_list ?xs) (map fst ?E))"
    by (simp add: comp_def count_list_map_filter)
  also have "\<dots> = sum (count_list ?xs) (set (map fst ?E))"
    using dist by (rule sum_list_distinct_conv_sum_set)
  also have "\<dots> = length ?xs"
    using keys by (intro sum_count_set) simp_all
  finally have total: "sum_list (map (\<lambda>p. ?c (fst p)) ?E) = ?n" by simp
  have "2 * \<bar>sum_list (map ?r (map (\<lambda>p. ?c (fst p)) ?E)) - 1000\<bar>
          \<le> int (length (map (\<lambda>p. ?c (fst p)) ?E))"
    using n total by (rule rounded_sum_100)
  moreover have "length (statusDistribution data) = length ?E"
    by (simp add: statusDistribution_alt)
  ultimately
  have sum: "2 * \<bar>sum_list (map (\<lambda>e. tenths (percentage e)) (statusDistribution data)) - 1000\<bar>
           \<le> int (length (statusDistribution data))"
    by (simp only: perc length_map)
  have d1: "distinct (map name (statusDistribution data))"
    unfolding names by (rule dist)
  have d2: "set (map name (statusDistribution data)) = status ` set data"
    unfolding names by (rule keys)
  show ?thesis
    by (rule conjI [OF d1 conjI [OF d2 conjI [OF each sum]]])
qed

text \<open>The ten records of the scenario have three distinct labels.\<close>

theorem status_distribution_witness:
  "ten_records \<noteq> []
   \<and> list_all (\<lambda>d. status d \<notin> set object_prototype_names) ten_records
   \<and> length ten_records < 2 ^ 32
   \<and> distinct (map name (statusDistribution ten_records))
   \<and> set (map name (statusDistribution ten_records))
       = {''Libre'', ''Partiellement libre'', ''Pas libre''}
   \<and> list_all (\<lambda>e. \<bar>percent_value (percentage e)
                       - exact_share (length (filter (\<lambda>d. status d = name e) ten_records)) 10\<bar>
                      \<le> 1 / 20)
       (statusDistribution ten_records)
   \<and> 2 * \<bar>sum_list (map (\<lambda>e. tenths (percentage e)) (statusDistribution ten_records)) - 1000\<bar>
        \<le> int (length (statusDistribution ten_records))"
proof -
  have ne: "ten_records \<noteq> []" by (simp add: ten_records_def)
  have plain: "\<forall>d\<in>set ten_records. status d \<notin> set object_prototype_names"
    by (simp add: ten_records_def sample_def object_prototype_names_def)
  have small: "length ten_records < 2 ^ 32" by (simp add: ten_records_def)
  have len: "length ten_records = 10" by (simp add: ten_records_def)
  have labels: "status ` set ten_records = {''Libre'', ''Partiellement libre'', ''Pas libre''}"
    by (auto simp: ten_records_def sample_def)
  note inst = status_distribution [OF ne plain]
  from inst small have "\<forall>e\<in>set (statusDistribution ten_records).
      \<bar>percent_value (percentage e)
         - exact_share (length (filter (\<lambda>d. status d = name e) ten_records)) 10\<bar> \<le> 1 / 20"
    unfolding len by blast
  then have close: "list_all (\<lambda>e. \<bar>percent_value (percentage e)
                       - exact_share (length (filter (\<lambda>d. status d = name e) ten_records)) 10\<bar>
                      \<le> 1 / 20)
       (statusDistribution ten_records)"
    by (simp only: list_all_iff)
  from plain have plain': "list_all (\<lambda>d. status d \<notin> set object_prototype_names) ten_records"
    by (simp only: list_all_iff)
  from inst labels have "distinct (map name (statusDistribution ten_records))"
    "set (map name (statusDistribution ten_records))
       = {''Libre'', ''Partiellement libre'', ''Pas libre''}"
    "2 * \<bar>sum_list (map (\<lambda>e. tenths (percentage e)) (statusDistribution ten_records)) - 1000\<bar>
        \<le> int (length (statusDistribution ten_records))"
    by simp_all
  with ne plain' small close show ?thesis by blast
qed

text \<open>
  Claim C8 as stated fails for six records with six different labels: each percentage
  is \<open>"16.7"\<close> and the six of them sum to 100.2.
\<close>

theorem six_labels_sum_to_100_2:
  "statusDistribution six_labels =
     [\<lparr>name = ''Libre'', value = Count 1, percentage = Fixed1 167\<rparr>,
      \<lparr>name = ''Partiellement libre'', value = Count 1, percentage = Fixed1 167\<rparr>,
      \<lparr>name = ''Pas libre'', value = Count 1, percentage = Fixed1 167\<rparr>,
      \<lparr>name = label_Non_specifie, value = Count 1, percentage = Fixed1 167\<rparr>,
      \<lparr>name = ''Free'', value = Count 1, percentage = Fixed1 167\<rparr>,
      \<lparr>name = ''Not Free'', value = Count 1, percentage = Fixed1 167\<rparr>]
   \<and> sum_list (map (\<lambda>e. tenths (percentage e)) (statusDistribution six_labels)) = 1002"
  by (simp add: chart_defs object_defs sort_defs numeral_defs six_labels_def sample_def
        label_Non_specifie_def percentage_values)

text \<open>
  A status that is a name inherited from \<open>Object.prototype\<close> is outside the theorem:
  the label \<open>__proto__\<close> never becomes a property of the distribution object.
\<close>

lemma proto_status_dropped:
  "map name (statusDistribution [sample 2020 ''Libre'' 1 1, sample 2020 ''__proto__'' 2 2])
     = [''Libre'']"
  by (simp add: chart_defs object_defs numeral_defs sample_def)

section \<open>Yearly trend series\<close>







lemma point_year_finish [simp]: "point_year (finish_year a) = acc_year a"
  by (simp add: finish_year_def)

lemma acc_year_group [simp]: "acc_year (year_group data y) = y"
  by (simp add: year_group_def)









text \<open>
  A record with another status is counted by the final \<open>else\<close> of the chain, in
  \<open>pasLibre\<close>, while the headline statistics count it in none of their three buckets.
\<close>

lemma other_status_goes_to_pasLibre:
  "yearlyTrends one_unspecified =
     [\<lparr>point_year = 2020, point_totalCountries = 1, point_avgPolitical = Fixed1 30,
       point_avgCivil = Fixed1 40, libre = 0, partLibre = 0, pasLibre = 1\<rparr>]
   \<and> length (filter (\<lambda>d. status d = ''Pas libre'') one_unspecified) = 0"
  by (simp add: chart_defs object_defs sort_defs numeral_defs one_unspecified_def sample_def
        label_Non_specifie_def average_values)

section \<open>Sorting the table\<close>

text \<open>
  Claim C10. Let \<open>data\<close> refer to an array of the store, and let the next reference be
  unused. For every sort column and direction \<open>sortedData\<close> returns a reference to an
  array that holds a permutation of the rows of \<open>data\<close>; the array of \<open>data\<close> and every
  other array of the store are as before; and when no sort column is selected the
  result is \<open>data\<close> itself and the store is unchanged.
\<close>

theorem sortedData_frame:
  assumes "arrays st data = Some xs" and "arrays st (next_ref st) = None"
  shows "\<exists>r st' ys. sortedData st data sortColumn sortDirection = Some (r, st')
           \<and> arrays st' r = Some ys \<and> mset ys = mset xs
           \<and> arrays st' data = Some xs
           \<and> (\<forall>a. a \<noteq> next_ref st \<longrightarrow> arrays st' a = arrays st a)
           \<and> (no_column sortColumn \<longrightarrow> r = data \<and> st' = st)"
proof (cases "no_column sortColumn")
  case True
  then have "sortedData st data sortColumn sortDirection = Some (data, st)"
    by (auto simp: sortedData_def no_column_def)
  with assms True show ?thesis by simp
next
  case False
  then obtain col where col: "sortColumn = Some col" "col \<noteq> []"
    by (cases sortColumn) (auto simp: no_column_def)
  from assms have ne: "data \<noteq> next_ref st" by auto
  let ?ys = "sort_by (compare_rows col sortDirection) xs"
  let ?st' = "st\<lparr>arrays := (arrays st)(next_ref st \<mapsto> ?ys), next_ref := Suc (next_ref st)\<rparr>"
  have "sortedData st data sortColumn sortDirection = Some (next_ref st, ?st')"
    using assms col by (simp add: sortedData_def spread_copy_def sort_in_place_def)
  moreover have "arrays ?st' (next_ref st) = Some ?ys" by simp
  moreover have "mset ?ys = mset xs" by (rule mset_sort_by)
  moreover have "arrays ?st' data = Some xs" using assms ne by simp
  moreover have "\<forall>a. a \<noteq> next_ref st \<longrightarrow> arrays ?st' a = arrays st a" by simp
  ultimately show ?thesis using False by blast
qed

text \<open>
  Two rows, 2021 before 2019: sorted by \<open>year\<close> the copy at reference 1 has them in
  ascending order and the array at reference 0 is as it was; with no column the result
  is reference 0.
\<close>

theorem sortedData_frame_witness:
  "arrays table_store 0 = Some [row_2021, row_2019]
   \<and> arrays table_store (next_ref table_store) = None
   \<and> (\<exists>st'. sortedData table_store 0 (Some ''year'') Asc = Some (1, st')
          \<and> arrays st' 1 = Some [row_2019, row_2021]
          \<and> arrays st' 0 = Some [row_2021, row_2019])
   \<and> sortedData table_store 0 None Asc = Some (0, table_store)"
proof -
  have h: "arrays table_store 0 = Some [row_2021, row_2019]"
    "arrays table_store (next_ref table_store) = None"
    by (simp_all add: table_store_def)
  from sortedData_frame [OF h, of "Some ''year''" Asc] obtain r st' ys where
    res: "sortedData table_store 0 (Some ''year'') Asc = Some (r, st')"
      "arrays st' r = Some ys" "arrays st' 0 = Some [row_2021, row_2019]"
    by blast
  have "sortedData table_store 0 (Some ''year'') Asc
          = Some (1, table_store\<lparr>arrays := (arrays table_store)(1 \<mapsto> [row_2019, row_2021]),
                                 next_ref := 2\<rparr>)"
    by (simp add: sortedData_def spread_copy_def sort_in_place_def sort_by_def compare_rows_def
          table_store_def row_2021_def row_2019_def)
  with res have sorted: "\<exists>st'. sortedData table_store 0 (Some ''year'') Asc = Some (1, st')
          \<and> arrays st' 1 = Some [row_2019, row_2021]
          \<and> arrays st' 0 = Some [row_2021, row_2019]"
    by auto
  from sortedData_frame [OF h, of None Asc]
  have "sortedData table_store 0 None Asc = Some (0, table_store)"
    by (auto simp: no_column_def)
  with h sorted show ?thesis by blast
qed

end

